theory Spec2Isabelle
  imports Main "HOL-Library.Sublist"
begin

section \<open>Strings, streams and number formatting of the C++ runtime\<close>

text \<open>
  The browser is written against \<^verbatim>\<open>std::string\<close>, \<^verbatim>\<open>std::vector\<close> and
  \<^verbatim>\<open>std::istringstream\<close>.  A string is a list of bytes.  The two ways in which
  the code can leave the defined behaviour of these containers are kept apart:
  \<^verbatim>\<open>at()\<close> throws \<^verbatim>\<open>std::out_of_range\<close>, whereas \<^verbatim>\<open>operator[]\<close> past the end of a
  vector has no defined behaviour at all.
\<close>

datatype error = OutOfRange | OutOfBounds

text \<open>\<^verbatim>\<open>s.at(pos)\<close>: bounds-checked access.\<close>

definition string_at :: "string \<Rightarrow> nat \<Rightarrow> error + char" where
  "string_at s pos = (if pos < length s then Inr (s ! pos) else Inl OutOfRange)"

text \<open>\<^verbatim>\<open>v.at(pos)\<close> on a vector of strings.\<close>

definition vector_at :: "string list \<Rightarrow> nat \<Rightarrow> error + string" where
  "vector_at v pos = (if pos < length v then Inr (v ! pos) else Inl OutOfRange)"

text \<open>\<^verbatim>\<open>v[pos]\<close> on a vector of strings: unchecked access.\<close>

definition vector_index :: "string list \<Rightarrow> nat \<Rightarrow> error + string" where
  "vector_index v pos = (if pos < length v then Inr (v ! pos) else Inl OutOfBounds)"

text \<open>
  \<^verbatim>\<open>arg.compare(0, len, str) == 0\<close>: the first \<open>len\<close> characters of \<open>arg\<close> (fewer
  when \<open>arg\<close> is shorter) are exactly \<open>str\<close>.  Position 0 is never past the end, so
  this call cannot throw.
\<close>

definition compare0 :: "string \<Rightarrow> nat \<Rightarrow> string \<Rightarrow> bool" where
  "compare0 arg len str = (take len arg = str)"

text \<open>
  \<^verbatim>\<open>arg.substr(pos)\<close>.  Every call in the browser follows a successful
  \<open>compare0 arg pos str\<close> with \<open>length str = pos\<close>, so \<open>pos\<close> is within the string
  (lemma \<open>compare0_length\<close> below) and the call cannot throw.
\<close>

definition substr :: "string \<Rightarrow> nat \<Rightarrow> string" where
  "substr arg pos = drop pos arg"

text \<open>
  \<^verbatim>\<open>s.c_str()\<close> (and \<^verbatim>\<open>TString::Data()\<close>) read as a C string by the callee: the
  characters before the first NUL character.  This is what a function with a
  \<^verbatim>\<open>const char *\<close> parameter sees of a string, and what \<^verbatim>\<open>std::ofstream\<close> opens
  when it is constructed from a \<^verbatim>\<open>std::string\<close>.
\<close>

definition c_str :: "string \<Rightarrow> string" where
  "c_str s = takeWhile (\<lambda>c. c \<noteq> CHR 0x00) s"

text \<open>
  An input string stream: the characters not yet read and the two state bits that
  \<^verbatim>\<open>std::getline\<close> looks at and sets.
\<close>

record istringstream =
  rdbuf :: string
  eofbit :: bool
  failbit :: bool

definition istringstream_of :: "string \<Rightarrow> istringstream" where
  "istringstream_of s = \<lparr>rdbuf = s, eofbit = False, failbit = False\<rparr>"

text \<open>
  \<^verbatim>\<open>std::getline(is, buffer, delim)\<close>, returning the line when the stream is still
  good afterwards and \<open>None\<close> when the call leaves it failed.  On a stream that is
  not good nothing is read and \<open>failbit\<close> is set.  Otherwise characters are taken
  up to the delimiter, which is removed from the stream but not stored; when the
  input ends first, \<open>eofbit\<close> is set, and \<open>failbit\<close> too if nothing at all was
  extracted.
\<close>

definition getline :: "istringstream \<Rightarrow> char \<Rightarrow> string option \<times> istringstream" where
  "getline is delim =
     (if eofbit is \<or> failbit is then (None, is\<lparr>failbit := True\<rparr>)
      else if delim \<in> set (rdbuf is)
      then (Some (takeWhile (\<lambda>c. c \<noteq> delim) (rdbuf is)),
            is\<lparr>rdbuf := tl (dropWhile (\<lambda>c. c \<noteq> delim) (rdbuf is))\<rparr>)
      else if rdbuf is = []
      then (None, is\<lparr>eofbit := True, failbit := True\<rparr>)
      else (Some (rdbuf is), is\<lparr>rdbuf := [], eofbit := True\<rparr>))"

text \<open>Decimal digits, as \<^verbatim>\<open>printf("%d")\<close> and \<^verbatim>\<open>std::to_string\<close> print them.\<close>

definition digit_char :: "nat \<Rightarrow> char" where
  "digit_char d = ''0123456789'' ! (d mod 10)"

fun string_of_nat :: "nat \<Rightarrow> string" where
  "string_of_nat n =
     (if n < 10 then [digit_char n]
      else string_of_nat (n div 10) @ [digit_char (n mod 10)])"

declare string_of_nat.simps [simp del]

definition string_of_int :: "int \<Rightarrow> string" where
  "string_of_int i =
     (if i < 0 then CHR ''-'' # string_of_nat (nat (- i)) else string_of_nat (nat i))"

text \<open>
  \<^verbatim>\<open>size() + 1\<close> is computed in \<^verbatim>\<open>size_t\<close> (64 bits, wrapping); the cast
  \<^verbatim>\<open>(int)\<close> keeps the low 32 bits and reads them as a signed number.
\<close>

definition size_t_plus1 :: "nat \<Rightarrow> nat" where
  "size_t_plus1 n = (n + 1) mod 2 ^ 64"

definition int_cast :: "nat \<Rightarrow> int" where
  "int_cast n =
     (let m = n mod 2 ^ 32 in if m < 2 ^ 31 then int m else int m - 2 ^ 32)"

text \<open>\<^verbatim>\<open>std::to_string(unsigned long)\<close>.\<close>

definition to_string :: "nat \<Rightarrow> string" where
  "to_string n = string_of_nat n"

text \<open>
  \<^verbatim>\<open>std::find_if\<close> over a vector: the position of the first element that satisfies
  the predicate, \<open>None\<close> for the end iterator.  \<^verbatim>\<open>erase\<close> removes the element at
  a position.
\<close>

primrec find_if :: "('a \<Rightarrow> bool) \<Rightarrow> 'a list \<Rightarrow> nat option" where
  "find_if P [] = None"
| "find_if P (x # xs) = (if P x then Some 0 else map_option Suc (find_if P xs))"

definition erase :: "'a list \<Rightarrow> nat \<Rightarrow> 'a list" where
  "erase xs i = take i xs @ drop (Suc i) xs"

section \<open>Data model\<close>

text \<open>
  An object of the host framework as far as the browser looks at it: whether it is
  a histogram (\<^verbatim>\<open>dynamic_cast<TH1 *>\<close>) and the directory that owns it.
\<close>

record TObject =
  objName :: string
  objIsTH1 :: bool
  objDirectory :: "string option"

text \<open>
  A legacy canvas with its list of primitives (object and drawing option) and the
  number of forced updates; a next-generation canvas with its title, its
  primitives and the number of updates.
\<close>

record TCanvas =
  fName :: string
  fTitle :: string
  fPrimitives :: "(TObject \<times> string) list"
  fForceUpdates :: nat

record RCanvas =
  rTitle :: string
  rPrimitives :: "(TObject \<times> string) list"
  rUpdates :: nat

text \<open>An element of the browsable tree, as \<^verbatim>\<open>ProcessDblClick\<close> queries it.\<close>

record element =
  HasTextContent :: bool
  GetTextContent :: string
  GetObjectToDraw :: "TObject option"

record RBrowserRequest =
  path :: string
  first :: int
  number :: int

text \<open>
  The web window: its live connections, every message handed to \<^verbatim>\<open>Send\<close> (with the
  connection it was sent to), the display arguments of every \<^verbatim>\<open>Show\<close>, and whether
  \<^verbatim>\<open>TerminateROOT\<close> was called.
\<close>

record RWebWindow =
  fConn :: "nat list"
  fConnLimit :: nat
  fSent :: "(nat \<times> string) list"
  fShown :: "string list"
  fTerminated :: bool

text \<open>
  The browser object.  The fields with prefix \<open>g\<close> are the state of the process
  that the browser changes through \<^verbatim>\<open>gSystem\<close>, \<^verbatim>\<open>gInterpreter\<close> and
  \<^verbatim>\<open>std::ofstream\<close>: the working directory of the process, the macros executed so
  far and the contents of the files written.  \<open>fBrowsable\<close> is the top item of the
  browsable tree, a directory path.  Console output (\<^verbatim>\<open>printf\<close>) is not recorded.
\<close>

record RBrowser =
  fUseRCanvas :: bool
  fWorkingDirectory :: string
  fActiveCanvas :: string
  fConnId :: nat
  fCanvases :: "TCanvas list"
  fRCanvases :: "RCanvas list"
  fBrowsable :: string
  fWebWindow :: RWebWindow
  gWorkingDirectory :: string
  gMacros :: "string list"
  gFiles :: "string \<rightharpoonup> string"

text \<open>
  The parts of the host framework that the browser calls and whose code is not part
  of this file are parameters of the model: the JSON reader and writer
  (\<^verbatim>\<open>TBufferJSON\<close>), the browsable tree (\<^verbatim>\<open>ProcessRequest\<close> followed by the
  serialisation of its reply, and \<^verbatim>\<open>GetElement\<close>, both depending on the top
  item), the addresses of canvas windows, \<^verbatim>\<open>gSystem->ChangeDirectory\<close> (new working
  directory of the process from the requested and the old one), and whether a file
  can be opened for writing.  Where the browser appends the \<^verbatim>\<open>Data()\<close> of a
  serialised text or passes \<^verbatim>\<open>c_str()\<close>, the model applies \<open>c_str\<close>.
\<close>

record host =
  FromJSON_request :: "string \<Rightarrow> RBrowserRequest option"
  FromJSON_strings :: "string \<Rightarrow> string list option"
  ToJSON_strings :: "string list \<Rightarrow> string"
  ToJSON_table :: "string list list \<Rightarrow> string"
  ProcessRequestJSON :: "string \<Rightarrow> RBrowserRequest \<Rightarrow> string"
  GetElement :: "string \<Rightarrow> string \<Rightarrow> element option"
  GetRelativeAddr :: "TCanvas \<Rightarrow> string"
  GetWindowAddr :: "RCanvas \<Rightarrow> string"
  ChangeDirectory :: "string \<Rightarrow> string \<Rightarrow> string"
  CanOpen :: "string \<Rightarrow> bool"

section \<open>Operations of the browser\<close>

text \<open>\<^verbatim>\<open>fWebWindow->Send(connid, msg)\<close>.\<close>

definition Send :: "nat \<Rightarrow> string \<Rightarrow> RBrowser \<Rightarrow> RBrowser" where
  "Send connid msg st =
     st\<lparr>fWebWindow := (fWebWindow st)\<lparr>fSent := fSent (fWebWindow st) @ [(connid, msg)]\<rparr>\<rparr>"

definition ProcessBrowserRequest :: "host \<Rightarrow> RBrowser \<Rightarrow> string \<Rightarrow> string" where
  "ProcessBrowserRequest h st msg =
     (let request =
            (if msg = [] then Some \<lparr>path = ''/'', first = 0, number = 100\<rparr>
             else FromJSON_request h msg)
      in case request of
           None \<Rightarrow> []
         | Some r \<Rightarrow> ''BREPL:'' @ c_str (ProcessRequestJSON h (fBrowsable st) r))"

text \<open>
  The two \<^verbatim>\<open>std::getline\<close> calls shared by \<^verbatim>\<open>ProcessSaveFile\<close> and
  \<^verbatim>\<open>ProcessRunCommand\<close>: up to the first colon, then up to the first NUL
  character; each line is pushed only when its call succeeded.
\<close>

definition split_path :: "string \<Rightarrow> string list" where
  "split_path file_path =
     (let (r1, s1) = getline (istringstream_of file_path) CHR '':'';
          split1 = (case r1 of Some buffer \<Rightarrow> [buffer] | None \<Rightarrow> []);
          (r2, s2) = getline s1 (CHR 0x00)
      in split1 @ (case r2 of Some buffer \<Rightarrow> [buffer] | None \<Rightarrow> []))"

text \<open>
  \<^verbatim>\<open>std::ofstream ostrm(name); ostrm << text;\<close>: the file opened is the one named by
  \<^verbatim>\<open>name.c_str()\<close>.  When it can be opened it is truncated and then holds the text;
  otherwise the stream is failed and nothing is written.
\<close>

definition ofstream_write :: "host \<Rightarrow> string \<Rightarrow> string \<Rightarrow> RBrowser \<Rightarrow> RBrowser" where
  "ofstream_write h name txt st =
     (let file = c_str name
      in if CanOpen h file then st\<lparr>gFiles := (gFiles st)(file \<mapsto> txt)\<rparr> else st)"

text \<open>
  \<^verbatim>\<open>split[0]\<close> and \<^verbatim>\<open>split[1]\<close> are unchecked.  Once one of them is out of bounds
  the behaviour of the whole call is undefined, so the model returns the error and
  no state.
\<close>

definition ProcessSaveFile :: "host \<Rightarrow> RBrowser \<Rightarrow> string \<Rightarrow> error + RBrowser" where
  "ProcessSaveFile h st file_path =
     (let split = split_path file_path
      in case vector_index split 0 of
           Inl e \<Rightarrow> Inl e
         | Inr name \<Rightarrow>
             (case vector_index split 1 of
                Inl e \<Rightarrow> Inl e
              | Inr txt \<Rightarrow> Inr (ofstream_write h name txt st)))"

text \<open>
  \<^verbatim>\<open>gInterpreter->ExecuteMacro(split[0].c_str())\<close>: the model records which macro
  name was handed to the interpreter.
\<close>

definition ProcessRunCommand :: "host \<Rightarrow> RBrowser \<Rightarrow> string \<Rightarrow> error + RBrowser" where
  "ProcessRunCommand h st file_path =
     (let split = split_path file_path
      in case vector_index split 0 of
           Inl e \<Rightarrow> Inl e
         | Inr name \<Rightarrow> Inr (st\<lparr>gMacros := gMacros st @ [c_str name]\<rparr>))"

text \<open>
  The active canvas of each list, as the position that \<^verbatim>\<open>std::find_if\<close> stops at.
\<close>

definition GetActiveCanvas :: "RBrowser \<Rightarrow> nat option" where
  "GetActiveCanvas st = find_if (\<lambda>canv. fActiveCanvas st = fName canv) (fCanvases st)"

definition GetActiveRCanvas :: "RBrowser \<Rightarrow> nat option" where
  "GetActiveRCanvas st = find_if (\<lambda>canv. fActiveCanvas st = rTitle canv) (fRCanvases st)"

text \<open>
  Drawing on a legacy canvas: clear the primitives, add the object with the option
  (the caller passes \<^verbatim>\<open>drawingOptions.c_str()\<close>), force an update.
\<close>

definition draw_on_canvas :: "TObject \<Rightarrow> string \<Rightarrow> TCanvas \<Rightarrow> TCanvas" where
  "draw_on_canvas tobj drawingOptions canv =
     canv\<lparr>fPrimitives := [(tobj, drawingOptions)], fForceUpdates := fForceUpdates canv + 1\<rparr>"

text \<open>
  Drawing on a next-generation canvas: a canvas that has primitives is wiped and
  updated first; then a clone of the object, detached from its directory when it is
  a histogram, is drawn and the canvas updated.
\<close>

definition draw_on_rcanvas :: "TObject \<Rightarrow> string \<Rightarrow> RCanvas \<Rightarrow> RCanvas" where
  "draw_on_rcanvas tobj drawingOptions rcanv =
     (let rcanv1 =
            (if length (rPrimitives rcanv) > 0
             then rcanv\<lparr>rPrimitives := [], rUpdates := rUpdates rcanv + 1\<rparr>
             else rcanv);
          clone = (if objIsTH1 tobj then tobj\<lparr>objDirectory := None\<rparr> else tobj)
      in rcanv1\<lparr>rPrimitives := rPrimitives rcanv1 @ [(clone, drawingOptions)],
                rUpdates := rUpdates rcanv1 + 1\<rparr>)"

definition ProcessDblClick :: "host \<Rightarrow> RBrowser \<Rightarrow> string \<Rightarrow> string \<Rightarrow> string \<times> RBrowser" where
  "ProcessDblClick h st item_path drawingOptions =
     (case GetElement h (fBrowsable st) item_path of
        None \<Rightarrow> ([], st)
      | Some elem \<Rightarrow>
          if HasTextContent elem then (''FREAD:'' @ GetTextContent elem, st)
          else
            (case GetObjectToDraw elem of
               None \<Rightarrow> ([], st)
             | Some tobj \<Rightarrow>
                 (case GetActiveCanvas st of
                    Some i \<Rightarrow>
                      (''SLCTCANV:'' @ fName (fCanvases st ! i),
                       st\<lparr>fCanvases :=
                            (fCanvases st)[i := draw_on_canvas tobj (c_str drawingOptions) (fCanvases st ! i)]\<rparr>)
                  | None \<Rightarrow>
                      (case GetActiveRCanvas st of
                         Some j \<Rightarrow>
                           (''SLCTCANV:'' @ rTitle (fRCanvases st ! j),
                            st\<lparr>fRCanvases :=
                                 (fRCanvases st)[j := draw_on_rcanvas tobj drawingOptions (fRCanvases st ! j)]\<rparr>)
                       | None \<Rightarrow> ([], st)))))"

text \<open>
  \<^verbatim>\<open>AddCanvas\<close>: the name is formatted with \<^verbatim>\<open>%d\<close> from \<^verbatim>\<open>(int)(fCanvases.size()+1)\<close>;
  the new canvas becomes the active one and is appended to the list.  The result is
  the new canvas and the new state.
\<close>

definition AddCanvas :: "RBrowser \<Rightarrow> TCanvas \<times> RBrowser" where
  "AddCanvas st =
     (let canv_name = ''webcanv'' @ string_of_int (int_cast (size_t_plus1 (length (fCanvases st))));
          canv = \<lparr>fName = canv_name, fTitle = canv_name, fPrimitives = [], fForceUpdates = 0\<rparr>
      in (canv, st\<lparr>fActiveCanvas := fName canv, fCanvases := fCanvases st @ [canv]\<rparr>))"

definition AddRCanvas :: "RBrowser \<Rightarrow> RCanvas \<times> RBrowser" where
  "AddRCanvas st =
     (let name = ''rcanv'' @ to_string (size_t_plus1 (length (fRCanvases st)));
          canv = \<lparr>rTitle = name, rPrimitives = [], rUpdates = 0\<rparr>
      in (canv, st\<lparr>fActiveCanvas := name, fRCanvases := fRCanvases st @ [canv]\<rparr>))"

definition GetCanvasUrl :: "host \<Rightarrow> TCanvas \<Rightarrow> string" where
  "GetCanvasUrl h canv = GetRelativeAddr h canv"

definition GetRCanvasUrl :: "host \<Rightarrow> RCanvas \<Rightarrow> string" where
  "GetRCanvasUrl h canv = ''../'' @ GetWindowAddr h canv @ ''/''"

definition CloseCanvas :: "RBrowser \<Rightarrow> string \<Rightarrow> RBrowser" where
  "CloseCanvas st name =
     (let st1 =
            (case find_if (\<lambda>canv. name = fName canv) (fCanvases st) of
               Some i \<Rightarrow> st\<lparr>fCanvases := erase (fCanvases st) i\<rparr>
             | None \<Rightarrow> st)
      in if fActiveCanvas st1 = name then st1\<lparr>fActiveCanvas := []\<rparr> else st1)"

text \<open>The initialisation listing: one triple of kind, url and name for each canvas.\<close>

definition init_listing :: "host \<Rightarrow> RBrowser \<Rightarrow> string list list" where
  "init_listing h st =
     map (\<lambda>canv. [''root6'', GetCanvasUrl h canv, fName canv]) (fCanvases st) @
     map (\<lambda>canv. [''root7'', GetRCanvasUrl h canv, rTitle canv]) (fRCanvases st)"

definition SendInitMsg :: "host \<Rightarrow> RBrowser \<Rightarrow> nat \<Rightarrow> RBrowser" where
  "SendInitMsg h st connid =
     Send connid (''INMSG:'' @ c_str (ToJSON_table h (init_listing h st))) st"

definition GetCurrentWorkingDirectory :: "RBrowser \<Rightarrow> string" where
  \<open>GetCurrentWorkingDirectory st = ''GETWORKDIR: { "path": "'' @ fWorkingDirectory st @ ''"}''\<close>

section \<open>The dispatcher\<close>

text \<open>
  \<^verbatim>\<open>WebWindowCallback\<close> is one chain of \<^verbatim>\<open>if ... else if\<close> on the message.  The
  chain is written here as the function \<open>route\<close>, which names the branch taken,
  with the conditions of the source in the order of the source; a message that
  passes no test takes no branch.
\<close>

datatype handler =
  QUIT_ROOT | BRREQ | NEWCANVAS | DBLCLK | RUNMACRO | SAVEFILE
| SELECT_CANVAS | CLOSE_CANVAS | GETWORKDIR | CHDIR

definition route :: "string \<Rightarrow> handler option" where
  "route arg =
     (if arg = ''QUIT_ROOT'' then Some QUIT_ROOT
      else if compare0 arg 6 ''BRREQ:'' then Some BRREQ
      else if arg = ''NEWCANVAS'' then Some NEWCANVAS
      else if compare0 arg 7 ''DBLCLK:'' then Some DBLCLK
      else if compare0 arg 9 ''RUNMACRO:'' then Some RUNMACRO
      else if compare0 arg 9 ''SAVEFILE:'' then Some SAVEFILE
      else if compare0 arg 14 ''SELECT_CANVAS:'' then Some SELECT_CANVAS
      else if compare0 arg 13 ''CLOSE_CANVAS:'' then Some CLOSE_CANVAS
      else if compare0 arg 11 ''GETWORKDIR:'' then Some GETWORKDIR
      else if compare0 arg 6 ''CHDIR:'' then Some CHDIR
      else None)"

text \<open>The bodies of the branches.\<close>

definition handle_BRREQ :: "host \<Rightarrow> RBrowser \<Rightarrow> nat \<Rightarrow> string \<Rightarrow> error + RBrowser" where
  "handle_BRREQ h st connid arg =
     (let json = ProcessBrowserRequest h st (substr arg 6)
      in Inr (if length json > 0 then Send connid json st else st))"

definition handle_NEWCANVAS :: "host \<Rightarrow> RBrowser \<Rightarrow> nat \<Rightarrow> error + RBrowser" where
  "handle_NEWCANVAS h st connid =
     (if fUseRCanvas st
      then (let (canv, st1) = AddRCanvas st;
                url = GetRCanvasUrl h canv;
                reply = [''root7'', url, rTitle canv]
            in Inr (Send connid (''CANVS:'' @ c_str (ToJSON_strings h reply)) st1))
      else (let (canv, st1) = AddCanvas st;
                url = GetCanvasUrl h canv;
                reply = [''root6'', url, fName canv]
            in Inr (Send connid (''CANVS:'' @ c_str (ToJSON_strings h reply)) st1)))"

definition handle_DBLCLK :: "host \<Rightarrow> RBrowser \<Rightarrow> nat \<Rightarrow> string \<Rightarrow> error + RBrowser" where
  "handle_DBLCLK h st connid arg =
     (case string_at arg 8 of
        Inl e \<Rightarrow> Inl e
      | Inr c \<Rightarrow>
          if c \<noteq> CHR ''[''
          then (let (str, st1) = ProcessDblClick h st (substr arg 7) []
                in Inr (Send connid str st1))
          else
            (case FromJSON_strings h (substr arg 7) of
               None \<Rightarrow> Inr st
             | Some arr \<Rightarrow>
                 (case vector_at arr 0 of
                    Inl e \<Rightarrow> Inl e
                  | Inr a0 \<Rightarrow>
                      (case vector_at arr 1 of
                         Inl e \<Rightarrow> Inl e
                       | Inr a1 \<Rightarrow>
                           (let (str, st1) = ProcessDblClick h st a0 a1
                            in Inr (if length str > 0 then Send connid str st1 else st1))))))"

definition handle_CHDIR :: "host \<Rightarrow> RBrowser \<Rightarrow> nat \<Rightarrow> string \<Rightarrow> error + RBrowser" where
  "handle_CHDIR h st connid arg =
     (let st1 = st\<lparr>fWorkingDirectory := substr arg 6\<rparr>;
          st2 = st1\<lparr>fBrowsable := fWorkingDirectory st1\<rparr>;
          st3 = st2\<lparr>gWorkingDirectory :=
                      ChangeDirectory h (c_str (fWorkingDirectory st2)) (gWorkingDirectory st2)\<rparr>
      in Inr (Send connid (GetCurrentWorkingDirectory st3) st3))"

definition WebWindowCallback :: "host \<Rightarrow> RBrowser \<Rightarrow> nat \<Rightarrow> string \<Rightarrow> error + RBrowser" where
  "WebWindowCallback h st connid arg =
     (case route arg of
        None \<Rightarrow> Inr st
      | Some QUIT_ROOT \<Rightarrow> Inr (st\<lparr>fWebWindow := (fWebWindow st)\<lparr>fTerminated := True\<rparr>\<rparr>)
      | Some BRREQ \<Rightarrow> handle_BRREQ h st connid arg
      | Some NEWCANVAS \<Rightarrow> handle_NEWCANVAS h st connid
      | Some DBLCLK \<Rightarrow> handle_DBLCLK h st connid arg
      | Some RUNMACRO \<Rightarrow> ProcessRunCommand h st (substr arg 9)
      | Some SAVEFILE \<Rightarrow> ProcessSaveFile h st (substr arg 9)
      | Some SELECT_CANVAS \<Rightarrow> Inr (st\<lparr>fActiveCanvas := substr arg 14\<rparr>)
      | Some CLOSE_CANVAS \<Rightarrow> Inr (CloseCanvas st (substr arg 13))
      | Some GETWORKDIR \<Rightarrow> Inr (Send connid (GetCurrentWorkingDirectory st) st)
      | Some CHDIR \<Rightarrow> handle_CHDIR h st connid arg)"

text \<open>
  A sequence of messages, each with the connection it arrives on, handled one after
  the other; an error ends the sequence.
\<close>

fun run :: "host \<Rightarrow> RBrowser \<Rightarrow> (nat \<times> string) list \<Rightarrow> error + RBrowser" where
  "run h st [] = Inr st"
| "run h st ((connid, arg) # msgs) =
     (case WebWindowCallback h st connid arg of
        Inl e \<Rightarrow> Inl e
      | Inr st1 \<Rightarrow> run h st1 msgs)"

section \<open>Showing the browser, connections, construction\<close>

text \<open>
  The loop of \<^verbatim>\<open>Show\<close> over the existing connections: each one is handed the
  message \<^verbatim>\<open>RELOAD\<close> through the dispatcher.
\<close>

fun Show_reload :: "host \<Rightarrow> RBrowser \<Rightarrow> nat list \<Rightarrow> error + RBrowser" where
  "Show_reload h st [] = Inr st"
| "Show_reload h st (connid # conns) =
     (case WebWindowCallback h st connid ''RELOAD'' of
        Inl e \<Rightarrow> Inl e
      | Inr st1 \<Rightarrow> Show_reload h st1 conns)"

definition Show :: "host \<Rightarrow> RBrowser \<Rightarrow> string \<Rightarrow> bool \<Rightarrow> error + RBrowser" where
  "Show h st args always_start_new_browser =
     (let number = length (fConn (fWebWindow st))
      in if number = 0 \<or> always_start_new_browser
         then Inr (st\<lparr>fWebWindow := (fWebWindow st)\<lparr>fShown := fShown (fWebWindow st) @ [args]\<rparr>\<rparr>)
         else Show_reload h st (fConn (fWebWindow st)))"

definition Hide :: "RBrowser \<Rightarrow> RBrowser" where
  "Hide st = st\<lparr>fWebWindow := (fWebWindow st)\<lparr>fConn := []\<rparr>\<rparr>"

text \<open>
  A client connects: the window accepts the connection while the limit allows it
  and then calls the first callback of the constructor, which stores the
  connection id and sends the initialisation message.
\<close>

definition Connect :: "host \<Rightarrow> RBrowser \<Rightarrow> nat \<Rightarrow> RBrowser" where
  "Connect h st connid =
     (if length (fConn (fWebWindow st)) < fConnLimit (fWebWindow st)
      then (let st1 = st\<lparr>fWebWindow := (fWebWindow st)\<lparr>fConn := fConn (fWebWindow st) @ [connid]\<rparr>\<rparr>
            in SendInitMsg h (st1\<lparr>fConnId := connid\<rparr>) connid)
      else st)"

text \<open>
  The constructor, given the working directory of the process: no canvas, no active
  canvas, a window with connection limit 1; then \<^verbatim>\<open>Show()\<close> with default
  arguments, then the first canvas.
\<close>

definition RBrowser_new :: "host \<Rightarrow> bool \<Rightarrow> string \<Rightarrow> error + RBrowser" where
  "RBrowser_new h use_rcanvas cwd =
     (let st0 = \<lparr>fUseRCanvas = use_rcanvas, fWorkingDirectory = cwd, fActiveCanvas = [],
                 fConnId = 0, fCanvases = [], fRCanvases = [], fBrowsable = cwd,
                 fWebWindow = \<lparr>fConn = [], fConnLimit = 1, fSent = [], fShown = [],
                               fTerminated = False\<rparr>,
                 gWorkingDirectory = cwd, gMacros = [], gFiles = Map.empty\<rparr>
      in case Show h st0 [] False of
           Inl e \<Rightarrow> Inl e
         | Inr st1 \<Rightarrow>
             Inr (if fUseRCanvas st1 then snd (AddRCanvas st1) else snd (AddCanvas st1)))"

section \<open>Notions used to state the properties\<close>

text \<open>
  The canvases that carry the active name: the elements of each list that satisfy
  the predicate of \<^verbatim>\<open>GetActiveCanvas\<close> and of \<^verbatim>\<open>GetActiveRCanvas\<close>.
\<close>

definition active_canvases :: "RBrowser \<Rightarrow> TCanvas list" where
  "active_canvases st = filter (\<lambda>canv. fActiveCanvas st = fName canv) (fCanvases st)"

definition active_rcanvases :: "RBrowser \<Rightarrow> RCanvas list" where
  "active_rcanvases st = filter (\<lambda>canv. fActiveCanvas st = rTitle canv) (fRCanvases st)"

section \<open>An example host and example sessions\<close>

text \<open>
  A host for concrete runs.  Its tree has a text file \<^verbatim>\<open>/notes.txt\<close> and a histogram
  \<^verbatim>\<open>/hist\<close>; its JSON reader accepts one browse request and one array of two
  strings and rejects everything else; its JSON writer puts the strings between
  brackets; every file with a non-empty name can be opened.
\<close>

definition example_element :: "string \<Rightarrow> element option" where
  "example_element p =
     (if p = ''/notes.txt''
      then Some \<lparr>HasTextContent = True, GetTextContent = ''hello'', GetObjectToDraw = None\<rparr>
      else if p = ''/hist''
      then Some \<lparr>HasTextContent = False, GetTextContent = [],
                 GetObjectToDraw = Some \<lparr>objName = ''hist'', objIsTH1 = True,
                                          objDirectory = Some ''file.root''\<rparr>\<rparr>
      else None)"

definition example_host :: host where
  "example_host =
     \<lparr>FromJSON_request =
        (\<lambda>s. if s = ''{}'' then Some \<lparr>path = ''/'', first = 0, number = 10\<rparr> else None),
      FromJSON_strings =
        (\<lambda>s. if s = '' [/hist,colz]'' then Some [''/hist'', ''colz''] else None),
      ToJSON_strings = (\<lambda>xs. ''['' @ concat (map (\<lambda>x. x @ '','') xs) @ '']''),
      ToJSON_table =
        (\<lambda>t. ''['' @ concat (map (\<lambda>xs. ''['' @ concat (map (\<lambda>x. x @ '','') xs) @ '']'') t) @ '']''),
      ProcessRequestJSON = (\<lambda>top r. ''{'' @ top @ path r @ ''}''),
      GetElement = (\<lambda>top p. example_element p),
      GetRelativeAddr = (\<lambda>canv. ''../'' @ fName canv @ ''/''),
      GetWindowAddr = rTitle,
      ChangeDirectory = (\<lambda>p old. p),
      CanOpen = (\<lambda>name. name \<noteq> [])\<rparr>"

text \<open>
  The session after construction with legacy canvases in \<^verbatim>\<open>/home\<close> and the
  connection of client 7 (lemma \<open>example_browser_reached\<close>), and the same with
  next-generation canvases (lemma \<open>example_rbrowser_reached\<close>).
\<close>

definition example_browser :: RBrowser where
  "example_browser =
     \<lparr>fUseRCanvas = False, fWorkingDirectory = ''/home'', fActiveCanvas = ''webcanv1'',
      fConnId = 7,
      fCanvases = [\<lparr>fName = ''webcanv1'', fTitle = ''webcanv1'', fPrimitives = [],
                    fForceUpdates = 0\<rparr>],
      fRCanvases = [], fBrowsable = ''/home'',
      fWebWindow = \<lparr>fConn = [7], fConnLimit = 1,
                    fSent = [(7, ''INMSG:[[root6,../webcanv1/,webcanv1,]]'')],
                    fShown = [[]], fTerminated = False\<rparr>,
      gWorkingDirectory = ''/home'', gMacros = [], gFiles = Map.empty\<rparr>"

definition example_rbrowser :: RBrowser where
  "example_rbrowser =
     \<lparr>fUseRCanvas = True, fWorkingDirectory = ''/home'', fActiveCanvas = ''rcanv1'',
      fConnId = 7,
      fCanvases = [],
      fRCanvases = [\<lparr>rTitle = ''rcanv1'', rPrimitives = [], rUpdates = 0\<rparr>],
      fBrowsable = ''/home'',
      fWebWindow = \<lparr>fConn = [7], fConnLimit = 1,
                    fSent = [(7, ''INMSG:[[root7,../rcanv1/,rcanv1,]]'')],
                    fShown = [[]], fTerminated = False\<rparr>,
      gWorkingDirectory = ''/home'', gMacros = [], gFiles = Map.empty\<rparr>"

text \<open>
  The legacy session after the message \<^verbatim>\<open>NEWCANVAS\<close> (lemma
  \<open>two_canvas_browser_reached\<close>): two canvases, the second one active.
\<close>

definition two_canvas_browser :: RBrowser where
  "two_canvas_browser =
     \<lparr>fUseRCanvas = False, fWorkingDirectory = ''/home'', fActiveCanvas = ''webcanv2'',
      fConnId = 7,
      fCanvases = [\<lparr>fName = ''webcanv1'', fTitle = ''webcanv1'', fPrimitives = [],
                    fForceUpdates = 0\<rparr>,
                   \<lparr>fName = ''webcanv2'', fTitle = ''webcanv2'', fPrimitives = [],
                    fForceUpdates = 0\<rparr>],
      fRCanvases = [], fBrowsable = ''/home'',
      fWebWindow = \<lparr>fConn = [7], fConnLimit = 1,
                    fSent = [(7, ''INMSG:[[root6,../webcanv1/,webcanv1,]]''),
                             (7, ''CANVS:[root6,../webcanv2/,webcanv2,]'')],
                    fShown = [[]], fTerminated = False\<rparr>,
      gWorkingDirectory = ''/home'', gMacros = [], gFiles = Map.empty\<rparr>"

text \<open>
  The legacy session after the messages \<^verbatim>\<open>NEWCANVAS\<close>, \<^verbatim>\<open>CLOSE_CANVAS:webcanv1\<close>,
  \<^verbatim>\<open>NEWCANVAS\<close> (lemma \<open>name_reuse_browser_reached\<close>).
\<close>

definition name_reuse_browser :: RBrowser where
  "name_reuse_browser =
     \<lparr>fUseRCanvas = False, fWorkingDirectory = ''/home'', fActiveCanvas = ''webcanv2'',
      fConnId = 7,
      fCanvases = [\<lparr>fName = ''webcanv2'', fTitle = ''webcanv2'', fPrimitives = [],
                    fForceUpdates = 0\<rparr>,
                   \<lparr>fName = ''webcanv2'', fTitle = ''webcanv2'', fPrimitives = [],
                    fForceUpdates = 0\<rparr>],
      fRCanvases = [], fBrowsable = ''/home'',
      fWebWindow = \<lparr>fConn = [7], fConnLimit = 1,
                    fSent = [(7, ''INMSG:[[root6,../webcanv1/,webcanv1,]]''),
                             (7, ''CANVS:[root6,../webcanv2/,webcanv2,]''),
                             (7, ''CANVS:[root6,../webcanv2/,webcanv2,]'')],
                    fShown = [[]], fTerminated = False\<rparr>,
      gWorkingDirectory = ''/home'', gMacros = [], gFiles = Map.empty\<rparr>"

section \<open>Basic facts\<close>

lemma compare0_length: "compare0 arg len str \<Longrightarrow> length str = len \<Longrightarrow> len \<le> length arg"
  by (auto simp: compare0_def)

lemma compare0_prefix: "compare0 arg (length str) str = prefix str arg"
proof
  assume "compare0 arg (length str) str"
  then have "take (length str) arg = str" by (simp add: compare0_def)
  then show "prefix str arg" by (metis take_is_prefix)
next
  assume "prefix str arg"
  then obtain zs where "arg = str @ zs" by (auto simp: prefix_def)
  then show "compare0 arg (length str) str" by (simp add: compare0_def)
qed

lemma c_str_no_NUL: "CHR 0x00 \<notin> set s \<Longrightarrow> c_str s = s"
  by (auto simp: c_str_def takeWhile_eq_all_conv)

lemma c_str_Nil: "c_str [] = []"
  by (simp add: c_str_def)

lemma digit_char_simps:
  "digit_char 0 = CHR ''0''" "digit_char 1 = CHR ''1''" "digit_char 2 = CHR ''2''"
  "digit_char 3 = CHR ''3''" "digit_char 4 = CHR ''4''" "digit_char 5 = CHR ''5''"
  "digit_char 6 = CHR ''6''" "digit_char 7 = CHR ''7''" "digit_char 8 = CHR ''8''"
  "digit_char 9 = CHR ''9''" "digit_char (Suc 0) = CHR ''1''"
  unfolding digit_char_def by simp_all

lemma string_of_nat_small:
  "string_of_nat 1 = ''1''" "string_of_nat 2 = ''2''" "string_of_nat 3 = ''3''"
  by (simp_all add: string_of_nat.simps digit_char_simps)

lemma size_t_plus1_small: "n < 2 ^ 64 - 1 \<Longrightarrow> size_t_plus1 n = Suc n"
  by (simp add: size_t_plus1_def)

lemma int_cast_small: "n < 2 ^ 31 \<Longrightarrow> int_cast n = int n"
  by (simp add: int_cast_def)

lemma webcanv_number: "n < 2 ^ 31 - 1 \<Longrightarrow> string_of_int (int_cast (size_t_plus1 n)) = string_of_nat (Suc n)"
proof -
  assume n: "n < 2 ^ 31 - 1"
  then have "n < (2 :: nat) ^ 64 - 1"
    by (rule less_le_trans) simp
  then have "size_t_plus1 n = Suc n" by (rule size_t_plus1_small)
  moreover from n have "Suc n < 2 ^ 31" by simp
  then have "int_cast (Suc n) = int (Suc n)" by (rule int_cast_small)
  moreover have "string_of_int (int (Suc n)) = string_of_nat (Suc n)"
    unfolding string_of_int_def by (simp only: of_nat_less_0_iff if_False nat_int)
  ultimately show ?thesis by (simp only:)
qed

lemma example_browser_reached:
  "map_sum id (\<lambda>st. Connect example_host st 7) (RBrowser_new example_host False ''/home'')
   = Inr example_browser"
  by (simp add: RBrowser_new_def Show_def Let_def AddCanvas_def webcanv_number
      string_of_nat_small Connect_def SendInitMsg_def Send_def init_listing_def
      GetCanvasUrl_def example_host_def example_browser_def c_str_def
      del: One_nat_def flip: One_nat_def)

lemma example_rbrowser_reached:
  "map_sum id (\<lambda>st. Connect example_host st 7) (RBrowser_new example_host True ''/home'')
   = Inr example_rbrowser"
  by (simp add: RBrowser_new_def Show_def Let_def AddRCanvas_def size_t_plus1_small
      to_string_def string_of_nat_small Connect_def SendInitMsg_def Send_def init_listing_def
      GetRCanvasUrl_def example_host_def example_rbrowser_def c_str_def
      del: One_nat_def flip: One_nat_def)

section \<open>Routing\<close>

lemma compare0_prefix_len: "length str = len \<Longrightarrow> compare0 arg len str = prefix str arg"
  using compare0_prefix [of arg str] by simp

lemma compare0_prefix_literals:
  "compare0 arg 6 ''BRREQ:'' = prefix ''BRREQ:'' arg"
  "compare0 arg 7 ''DBLCLK:'' = prefix ''DBLCLK:'' arg"
  "compare0 arg 9 ''RUNMACRO:'' = prefix ''RUNMACRO:'' arg"
  "compare0 arg 9 ''SAVEFILE:'' = prefix ''SAVEFILE:'' arg"
  "compare0 arg 14 ''SELECT_CANVAS:'' = prefix ''SELECT_CANVAS:'' arg"
  "compare0 arg 13 ''CLOSE_CANVAS:'' = prefix ''CLOSE_CANVAS:'' arg"
  "compare0 arg 11 ''GETWORKDIR:'' = prefix ''GETWORKDIR:'' arg"
  "compare0 arg 6 ''CHDIR:'' = prefix ''CHDIR:'' arg"
  by (rule compare0_prefix_len, simp)+

lemma route_literals:
  "route ''QUIT_ROOT'' = Some QUIT_ROOT"
  "route ''NEWCANVAS'' = Some NEWCANVAS"
  "route ''GETWORKDIR:'' = Some GETWORKDIR"
  "route ''RELOAD'' = None"
  by (simp_all add: route_def compare0_def)

lemma route_prefixes:
  "route (''BRREQ:'' @ payload) = Some BRREQ"
  "route (''DBLCLK:'' @ payload) = Some DBLCLK"
  "route (''RUNMACRO:'' @ payload) = Some RUNMACRO"
  "route (''SAVEFILE:'' @ payload) = Some SAVEFILE"
  "route (''SELECT_CANVAS:'' @ payload) = Some SELECT_CANVAS"
  "route (''CLOSE_CANVAS:'' @ payload) = Some CLOSE_CANVAS"
  "route (''GETWORKDIR:'' @ payload) = Some GETWORKDIR"
  "route (''CHDIR:'' @ payload) = Some CHDIR"
  by (simp_all add: route_def compare0_def)

lemma route_None_iff:
  "route arg = None \<longleftrightarrow>
     arg \<noteq> ''QUIT_ROOT'' \<and> arg \<noteq> ''NEWCANVAS'' \<and>
     \<not> prefix ''BRREQ:'' arg \<and> \<not> prefix ''DBLCLK:'' arg \<and>
     \<not> prefix ''RUNMACRO:'' arg \<and> \<not> prefix ''SAVEFILE:'' arg \<and>
     \<not> prefix ''SELECT_CANVAS:'' arg \<and> \<not> prefix ''CLOSE_CANVAS:'' arg \<and>
     \<not> prefix ''GETWORKDIR:'' arg \<and> \<not> prefix ''CHDIR:'' arg"
  unfolding route_def compare0_prefix_literals by simp

lemma substr_append_literals:
  "substr (''BRREQ:'' @ payload) 6 = payload"
  "substr (''DBLCLK:'' @ payload) 7 = payload"
  "substr (''RUNMACRO:'' @ payload) 9 = payload"
  "substr (''SAVEFILE:'' @ payload) 9 = payload"
  "substr (''SELECT_CANVAS:'' @ payload) 14 = payload"
  "substr (''CLOSE_CANVAS:'' @ payload) 13 = payload"
  "substr (''CHDIR:'' @ payload) 6 = payload"
  by (simp_all add: substr_def)

lemma WebWindowCallback_literals:
  "WebWindowCallback h st connid ''QUIT_ROOT''
   = Inr (st\<lparr>fWebWindow := (fWebWindow st)\<lparr>fTerminated := True\<rparr>\<rparr>)"
  "WebWindowCallback h st connid ''NEWCANVAS'' = handle_NEWCANVAS h st connid"
  "WebWindowCallback h st connid ''GETWORKDIR:''
   = Inr (Send connid (GetCurrentWorkingDirectory st) st)"
  "WebWindowCallback h st connid ''RELOAD'' = Inr st"
  unfolding WebWindowCallback_def route_literals by simp_all

lemma WebWindowCallback_prefixes:
  "WebWindowCallback h st connid (''BRREQ:'' @ payload)
   = handle_BRREQ h st connid (''BRREQ:'' @ payload)"
  "WebWindowCallback h st connid (''DBLCLK:'' @ payload)
   = handle_DBLCLK h st connid (''DBLCLK:'' @ payload)"
  "WebWindowCallback h st connid (''RUNMACRO:'' @ payload) = ProcessRunCommand h st payload"
  "WebWindowCallback h st connid (''SAVEFILE:'' @ payload) = ProcessSaveFile h st payload"
  "WebWindowCallback h st connid (''SELECT_CANVAS:'' @ payload)
   = Inr (st\<lparr>fActiveCanvas := payload\<rparr>)"
  "WebWindowCallback h st connid (''CLOSE_CANVAS:'' @ payload) = Inr (CloseCanvas st payload)"
  "WebWindowCallback h st connid (''GETWORKDIR:'' @ payload)
   = Inr (Send connid (GetCurrentWorkingDirectory st) st)"
  "WebWindowCallback h st connid (''CHDIR:'' @ payload)
   = handle_CHDIR h st connid (''CHDIR:'' @ payload)"
  unfolding WebWindowCallback_def route_prefixes substr_append_literals by simp_all

section \<open>Double click on a text element\<close>

lemma ProcessDblClick_text:
  "GetElement h (fBrowsable st) item_path = Some elem \<Longrightarrow> HasTextContent elem \<Longrightarrow>
   ProcessDblClick h st item_path drawingOptions = (''FREAD:'' @ GetTextContent elem, st)"
  by (simp add: ProcessDblClick_def)

text \<open>
  Claim C9.  When the element that a double-clicked path resolves to has text
  content, \<^verbatim>\<open>ProcessDblClick\<close> returns \<^verbatim>\<open>FREAD:\<close> followed by exactly that text
  and leaves the whole browser state, hence every canvas, as it was; and the
  dispatcher, on a \<^verbatim>\<open>DBLCLK:\<close> message that gives the path in plain form (the
  character at index 8 exists and is not an opening bracket), sends exactly this
  reply and changes nothing else.
\<close>

theorem dblclick_text_reply:
  "GetElement h (fBrowsable st) item_path = Some elem \<Longrightarrow> HasTextContent elem \<Longrightarrow>
   ProcessDblClick h st item_path drawingOptions = (''FREAD:'' @ GetTextContent elem, st) \<and>
   (\<forall>c. string_at (''DBLCLK:'' @ item_path) 8 = Inr c \<and> c \<noteq> CHR ''['' \<longrightarrow>
      WebWindowCallback h st connid (''DBLCLK:'' @ item_path)
      = Inr (Send connid (''FREAD:'' @ GetTextContent elem) st))"
proof (intro conjI allI impI)
  assume el: "GetElement h (fBrowsable st) item_path = Some elem" and tc: "HasTextContent elem"
  show "ProcessDblClick h st item_path drawingOptions = (''FREAD:'' @ GetTextContent elem, st)"
    using el tc by (rule ProcessDblClick_text)
  fix c
  assume c: "string_at (''DBLCLK:'' @ item_path) 8 = Inr c \<and> c \<noteq> CHR ''[''"
  have "WebWindowCallback h st connid (''DBLCLK:'' @ item_path)
        = handle_DBLCLK h st connid (''DBLCLK:'' @ item_path)"
    by (rule WebWindowCallback_prefixes)
  also from c have "\<dots> = (let (str, st1) = ProcessDblClick h st item_path []
                        in Inr (Send connid str st1))"
    unfolding handle_DBLCLK_def substr_append_literals by simp
  also have "\<dots> = Inr (Send connid (''FREAD:'' @ GetTextContent elem) st)"
    using el tc by (simp add: ProcessDblClick_text)
  finally show "WebWindowCallback h st connid (''DBLCLK:'' @ item_path)
      = Inr (Send connid (''FREAD:'' @ GetTextContent elem) st)" .
qed

theorem dblclick_text_reply_witness:
  "GetElement example_host (fBrowsable example_browser) ''/notes.txt''
     = Some \<lparr>HasTextContent = True, GetTextContent = ''hello'', GetObjectToDraw = None\<rparr> \<and>
   string_at (''DBLCLK:'' @ ''/notes.txt'') 8 = Inr CHR ''n'' \<and>
   ProcessDblClick example_host example_browser ''/notes.txt'' [] = (''FREAD:hello'', example_browser) \<and>
   WebWindowCallback example_host example_browser 7 ''DBLCLK:/notes.txt''
     = Inr (Send 7 ''FREAD:hello'' example_browser)"
proof -
  let ?e = "\<lparr>HasTextContent = True, GetTextContent = ''hello'', GetObjectToDraw = None\<rparr>"
  have el: "GetElement example_host (fBrowsable example_browser) ''/notes.txt'' = Some ?e"
    by (simp add: example_host_def example_element_def)
  have tc: "HasTextContent ?e" by simp
  have at: "string_at (''DBLCLK:'' @ ''/notes.txt'') 8 = Inr CHR ''n''"
    by (simp add: string_at_def)
  from dblclick_text_reply [OF el tc, of "[]" 7] at el show ?thesis
    by simp
qed

section \<open>Showing the browser again\<close>

lemma Show_reload_unchanged: "Show_reload h st conns = Inr st"
  by (induction conns) (simp_all add: WebWindowCallback_literals)

lemma Show_connected_unchanged:
  "fConn (fWebWindow st) \<noteq> [] \<Longrightarrow> Show h st args False = Inr st"
  by (simp add: Show_def Show_reload_unchanged)

text \<open>
  Claim C1.  In the example session, which has the connection 7, \<^verbatim>\<open>Show\<close> without
  a forced new window opens no window, but it does not send the initialisation
  listing again either: the dispatcher has no branch for the message \<^verbatim>\<open>RELOAD\<close>
  that \<^verbatim>\<open>Show\<close> hands to it, so the state, with its record of sent messages, is
  exactly what it was, and differs from the state after \<^verbatim>\<open>SendInitMsg\<close>.
\<close>

theorem Show_connected_sends_nothing:
  "fConn (fWebWindow example_browser) = [7] \<and>
   Show example_host example_browser [] False = Inr example_browser \<and>
   fSent (fWebWindow (SendInitMsg example_host example_browser 7))
     = fSent (fWebWindow example_browser) @ [(7, ''INMSG:[[root6,../webcanv1/,webcanv1,]]'')]"
proof (intro conjI)
  show c: "fConn (fWebWindow example_browser) = [7]"
    by (simp add: example_browser_def)
  then have "fConn (fWebWindow example_browser) \<noteq> []" by simp
  then show "Show example_host example_browser [] False = Inr example_browser"
    by (rule Show_connected_unchanged)
  show "fSent (fWebWindow (SendInitMsg example_host example_browser 7))
     = fSent (fWebWindow example_browser) @ [(7, ''INMSG:[[root6,../webcanv1/,webcanv1,]]'')]"
    by (simp add: SendInitMsg_def Send_def init_listing_def GetCanvasUrl_def
        example_host_def example_browser_def c_str_def)
qed

section \<open>Closing a canvas\<close>

lemma CloseCanvas_fRCanvases: "fRCanvases (CloseCanvas st name) = fRCanvases st"
  by (simp add: CloseCanvas_def Let_def split: option.splits)

lemma CloseCanvas_fActiveCanvas:
  "fActiveCanvas (CloseCanvas st name) = (if fActiveCanvas st = name then [] else fActiveCanvas st)"
  by (simp add: CloseCanvas_def Let_def split: option.splits)

text \<open>
  Claim C2.  In the example session with next-generation canvases, whose only
  canvas is \<^verbatim>\<open>rcanv1\<close>, the message \<^verbatim>\<open>CLOSE_CANVAS:rcanv1\<close> clears the active name
  and leaves the canvas in its list: \<^verbatim>\<open>CloseCanvas\<close> searches the legacy list only.
\<close>

theorem close_rcanvas_keeps_canvas:
  "WebWindowCallback example_host example_rbrowser 7 ''CLOSE_CANVAS:rcanv1''
     = Inr (example_rbrowser\<lparr>fActiveCanvas := []\<rparr>) \<and>
   fRCanvases (example_rbrowser\<lparr>fActiveCanvas := []\<rparr>)
     = [\<lparr>rTitle = ''rcanv1'', rPrimitives = [], rUpdates = 0\<rparr>]"
proof -
  have "WebWindowCallback example_host example_rbrowser 7 (''CLOSE_CANVAS:'' @ ''rcanv1'')
        = Inr (CloseCanvas example_rbrowser ''rcanv1'')"
    by (rule WebWindowCallback_prefixes)
  moreover have "CloseCanvas example_rbrowser ''rcanv1'' = example_rbrowser\<lparr>fActiveCanvas := []\<rparr>"
    by (simp add: CloseCanvas_def example_rbrowser_def)
  ultimately show ?thesis by (simp add: example_rbrowser_def)
qed

section \<open>Working directory\<close>

lemma handle_CHDIR_payload:
  "handle_CHDIR h st connid (''CHDIR:'' @ p)
   = Inr (Send connid (GetCurrentWorkingDirectory (st\<lparr>fWorkingDirectory := p\<rparr>))
        (st\<lparr>fWorkingDirectory := p, fBrowsable := p,
            gWorkingDirectory := ChangeDirectory h (c_str p) (gWorkingDirectory st)\<rparr>))"
  unfolding handle_CHDIR_def substr_append_literals
  by (simp add: Let_def GetCurrentWorkingDirectory_def)

lemma run_CHDIR_GETWORKDIR:
  \<open>run h st [(connid, ''CHDIR:'' @ p), (connid, ''GETWORKDIR:'')]
   = (let reply = ''GETWORKDIR: { "path": "'' @ p @ ''"}'';
          st1 = st\<lparr>fWorkingDirectory := p, fBrowsable := p,
                    gWorkingDirectory := ChangeDirectory h (c_str p) (gWorkingDirectory st)\<rparr>
      in Inr (Send connid reply (Send connid reply st1)))\<close>
proof -
  have "WebWindowCallback h st connid (''CHDIR:'' @ p) = handle_CHDIR h st connid (''CHDIR:'' @ p)"
    by (rule WebWindowCallback_prefixes)
  then have "run h st [(connid, ''CHDIR:'' @ p), (connid, ''GETWORKDIR:'')]
      = run h (Send connid (GetCurrentWorkingDirectory (st\<lparr>fWorkingDirectory := p\<rparr>))
        (st\<lparr>fWorkingDirectory := p, fBrowsable := p,
            gWorkingDirectory := ChangeDirectory h (c_str p) (gWorkingDirectory st)\<rparr>))
          [(connid, ''GETWORKDIR:'')]"
    by (simp only: run.simps handle_CHDIR_payload sum.case)
  then show ?thesis
    by (simp add: WebWindowCallback_literals Send_def GetCurrentWorkingDirectory_def Let_def)
qed

text \<open>
  Claim C6.  For the directory \<^verbatim>\<open>/tmp/a"b\<close>, whose name holds a double quote, the
  messages \<^verbatim>\<open>CHDIR:/tmp/a"b\<close> and \<^verbatim>\<open>GETWORKDIR:\<close> re-root the browsable tree at that
  path, as claimed, but the reply carries the path as it is, between two quotes and
  without escaping: the text after \<^verbatim>\<open>GETWORKDIR:\<close> is \<^verbatim>\<open>{ "path": "/tmp/a"b"}\<close>, in
  which the string after \<^verbatim>\<open>"path":\<close> ends after \<^verbatim>\<open>/tmp/a\<close>.
\<close>

theorem workdir_reply_unescaped:
  \<open>map_sum id (\<lambda>st. (fBrowsable st, fWorkingDirectory st, last (fSent (fWebWindow st))))
     (run example_host example_browser [(7, ''CHDIR:/tmp/a"b''), (7, ''GETWORKDIR:'')])
   = Inr (''/tmp/a"b'', ''/tmp/a"b'', (7, ''GETWORKDIR: { "path": "/tmp/a"b"}''))\<close>
  using run_CHDIR_GETWORKDIR [of example_host example_browser 7 \<open>''/tmp/a"b''\<close>]
  by (simp add: Send_def Let_def)

section \<open>Short double-click messages\<close>

text \<open>
  Claim C7, as stated, fails in its description of the message: \<^verbatim>\<open>DBLCLK:\<close> is routed
  to the double-click branch and has seven characters, not eight, so that already
  index 7 is past its end.
\<close>

theorem dblclick_message_length_counterexample:
  "route ''DBLCLK:'' = Some DBLCLK \<and> length ''DBLCLK:'' = 7 \<and>
   string_at ''DBLCLK:'' 7 = Inl OutOfRange"
  by (simp add: string_at_def route_def compare0_def)

text \<open>
  Claim C7, amended.  Every message that starts with \<^verbatim>\<open>DBLCLK:\<close> and has at most
  eight characters (the seven characters \<^verbatim>\<open>DBLCLK:\<close> alone, or a payload of one
  character) makes the dispatcher evaluate \<^verbatim>\<open>arg.at(8)\<close> at an index that is not
  within the message: handling it ends with \<^verbatim>\<open>std::out_of_range\<close>, not silently.
\<close>

theorem dblclick_short_message_throws:
  "prefix ''DBLCLK:'' arg \<Longrightarrow> length arg \<le> 8 \<Longrightarrow>
   string_at arg 8 = Inl OutOfRange \<and> WebWindowCallback h st connid arg = Inl OutOfRange"
proof -
  assume pre: "prefix ''DBLCLK:'' arg" and len: "length arg \<le> 8"
  from len have at: "string_at arg 8 = Inl OutOfRange"
    by (simp add: string_at_def)
  from pre obtain payload where arg: "arg = ''DBLCLK:'' @ payload"
    by (auto simp: prefix_def)
  have "WebWindowCallback h st connid (''DBLCLK:'' @ payload)
        = handle_DBLCLK h st connid (''DBLCLK:'' @ payload)"
    by (rule WebWindowCallback_prefixes)
  with arg have "WebWindowCallback h st connid arg = handle_DBLCLK h st connid arg"
    by simp
  with at show ?thesis by (simp add: handle_DBLCLK_def)
qed

theorem dblclick_short_message_throws_witness:
  "prefix ''DBLCLK:'' ''DBLCLK:'' \<and> length ''DBLCLK:'' = 7 \<and>
   WebWindowCallback example_host example_browser 7 ''DBLCLK:'' = Inl OutOfRange \<and>
   prefix ''DBLCLK:'' ''DBLCLK:x'' \<and> length ''DBLCLK:x'' = 8 \<and>
   WebWindowCallback example_host example_browser 7 ''DBLCLK:x'' = Inl OutOfRange"
proof -
  have p1: "prefix ''DBLCLK:'' ''DBLCLK:''" by simp
  have l1: "length ''DBLCLK:'' \<le> 8" by simp
  have p2: "prefix ''DBLCLK:'' ''DBLCLK:x''" by simp
  have l2: "length ''DBLCLK:x'' \<le> 8" by simp
  from dblclick_short_message_throws [OF p1 l1, of example_host example_browser 7]
    dblclick_short_message_throws [OF p2 l2, of example_host example_browser 7]
  show ?thesis by simp
qed

section \<open>Saving a file\<close>

lemma split_path_empty: "split_path [] = []"
  by (simp add: split_path_def getline_def istringstream_of_def)

lemma split_path_no_colon:
  "CHR '':'' \<notin> set file_path \<Longrightarrow> file_path \<noteq> [] \<Longrightarrow> split_path file_path = [file_path]"
  by (simp add: split_path_def getline_def istringstream_of_def)

lemma takeWhile_until: "d \<notin> set xs \<Longrightarrow> takeWhile (\<lambda>c. c \<noteq> d) (xs @ d # ys) = xs"
  by (induction xs) auto

lemma dropWhile_until: "d \<notin> set xs \<Longrightarrow> dropWhile (\<lambda>c. c \<noteq> d) (xs @ d # ys) = d # ys"
  by (induction xs) auto

lemma getline_colon:
  "CHR '':'' \<notin> set name \<Longrightarrow>
   getline (istringstream_of (name @ CHR '':'' # rest)) CHR '':''
   = (Some name, istringstream_of rest)"
  by (simp add: getline_def istringstream_of_def takeWhile_until dropWhile_until)

lemma getline_rest:
  "getline (istringstream_of rest) (CHR 0x00)
   = (if CHR 0x00 \<in> set rest
      then (Some (takeWhile (\<lambda>c. c \<noteq> CHR 0x00) rest),
            \<lparr>rdbuf = tl (dropWhile (\<lambda>c. c \<noteq> CHR 0x00) rest), eofbit = False, failbit = False\<rparr>)
      else if rest = [] then (None, \<lparr>rdbuf = [], eofbit = True, failbit = True\<rparr>)
      else (Some rest, \<lparr>rdbuf = [], eofbit = True, failbit = False\<rparr>))"
  by (simp add: getline_def istringstream_of_def)

lemma split_path_colon:
  "CHR '':'' \<notin> set name \<Longrightarrow>
   split_path (name @ CHR '':'' # rest)
   = (if CHR 0x00 \<in> set rest then [name, takeWhile (\<lambda>c. c \<noteq> CHR 0x00) rest]
      else if rest = [] then [name]
      else [name, rest])"
  by (simp add: split_path_def getline_colon getline_rest)

lemma ProcessSaveFile_no_colon:
  "CHR '':'' \<notin> set file_path \<Longrightarrow> ProcessSaveFile h st file_path = Inl OutOfBounds"
  by (cases "file_path = []")
    (simp_all add: ProcessSaveFile_def split_path_empty split_path_no_colon vector_index_def)

lemma ProcessSaveFile_colon:
  "CHR '':'' \<notin> set name \<Longrightarrow>
   ProcessSaveFile h st (name @ CHR '':'' # rest)
   = (if CHR 0x00 \<in> set rest
      then Inr (ofstream_write h name (takeWhile (\<lambda>c. c \<noteq> CHR 0x00) rest) st)
      else if rest = [] then Inl OutOfBounds
      else Inr (ofstream_write h name rest st))"
  by (simp add: ProcessSaveFile_def split_path_colon vector_index_def)

text \<open>
  Claim C8, as stated, fails for the empty payload, which has no colon either: the
  split vector is then empty, not of one element, and the first unchecked read,
  \<^verbatim>\<open>split[0]\<close>, is already out of bounds.
\<close>

theorem split_empty_payload_counterexample:
  "CHR '':'' \<notin> set [] \<and> length (split_path []) \<noteq> 1 \<and>
   vector_index (split_path []) 0 = Inl OutOfBounds"
  by (simp add: split_path_empty vector_index_def)

text \<open>
  Claim C8, amended.  For every \<^verbatim>\<open>SAVEFILE\<close> payload without a colon the unchecked
  reads of \<^verbatim>\<open>ProcessSaveFile\<close> leave the split vector, so the case is not handled:
  a non-empty payload gives the one-element vector that holds the payload, and
  \<^verbatim>\<open>split[1]\<close> is out of bounds; the empty payload gives the empty vector, and
  \<^verbatim>\<open>split[0]\<close> is out of bounds.  The dispatcher passes the error on.
\<close>

theorem savefile_no_separator:
  "CHR '':'' \<notin> set file_path \<Longrightarrow>
   (file_path \<noteq> [] \<longrightarrow>
      split_path file_path = [file_path] \<and>
      vector_index (split_path file_path) 1 = Inl OutOfBounds) \<and>
   (file_path = [] \<longrightarrow>
      split_path file_path = [] \<and>
      vector_index (split_path file_path) 0 = Inl OutOfBounds) \<and>
   ProcessSaveFile h st file_path = Inl OutOfBounds \<and>
   WebWindowCallback h st connid (''SAVEFILE:'' @ file_path) = Inl OutOfBounds"
proof (intro conjI impI)
  assume nc: "CHR '':'' \<notin> set file_path"
  show "ProcessSaveFile h st file_path = Inl OutOfBounds"
    using nc by (rule ProcessSaveFile_no_colon)
  have "WebWindowCallback h st connid (''SAVEFILE:'' @ file_path) = ProcessSaveFile h st file_path"
    by (rule WebWindowCallback_prefixes)
  then show "WebWindowCallback h st connid (''SAVEFILE:'' @ file_path) = Inl OutOfBounds"
    using nc by (simp add: ProcessSaveFile_no_colon)
  {
    assume ne: "file_path \<noteq> []"
    from nc ne show s1: "split_path file_path = [file_path]"
      by (rule split_path_no_colon)
    then show "vector_index (split_path file_path) 1 = Inl OutOfBounds"
      by (simp add: vector_index_def)
  }
  {
    assume e: "file_path = []"
    then show "split_path file_path = []"
      by (simp add: split_path_empty)
    then show "vector_index (split_path file_path) 0 = Inl OutOfBounds"
      by (simp add: vector_index_def)
  }
qed

theorem savefile_no_separator_witness:
  "CHR '':'' \<notin> set ''foo.txt'' \<and> ''foo.txt'' \<noteq> [] \<and>
   split_path ''foo.txt'' = [''foo.txt''] \<and>
   vector_index (split_path ''foo.txt'') 1 = Inl OutOfBounds \<and>
   WebWindowCallback example_host example_browser 7 ''SAVEFILE:foo.txt'' = Inl OutOfBounds \<and>
   CHR '':'' \<notin> set [] \<and>
   split_path [] = [] \<and>
   vector_index (split_path []) 0 = Inl OutOfBounds \<and>
   WebWindowCallback example_host example_browser 7 ''SAVEFILE:'' = Inl OutOfBounds"
proof -
  have n1: "CHR '':'' \<notin> set ''foo.txt''" by simp
  have n2: "CHR '':'' \<notin> set []" by simp
  from savefile_no_separator [OF n1, of example_host example_browser 7]
    savefile_no_separator [OF n2, of example_host example_browser 7]
  show ?thesis by (simp add: vector_index_def)
qed

text \<open>
  Claim C10, as stated, fails for a content that is empty and for a content with a
  NUL character: \<^verbatim>\<open>SAVEFILE:foo.txt:\<close> reads \<^verbatim>\<open>split[1]\<close> out of bounds, and for
  the content \<^verbatim>\<open>a\<close>, NUL, \<^verbatim>\<open>b\<close> the file holds only \<^verbatim>\<open>a\<close>.
\<close>

theorem savefile_content_counterexample:
  "WebWindowCallback example_host example_browser 7 ''SAVEFILE:foo.txt:'' = Inl OutOfBounds \<and>
   map_sum id (\<lambda>st. gFiles st ''foo.txt'')
     (WebWindowCallback example_host example_browser 7
        (''SAVEFILE:foo.txt:'' @ [CHR ''a'', CHR 0x00, CHR ''b'']))
   = Inr (Some ''a'')"
proof -
  have n: "CHR '':'' \<notin> set ''foo.txt''" by simp
  have o: "CanOpen example_host ''foo.txt''" by (simp add: example_host_def)
  have "WebWindowCallback example_host example_browser 7 (''SAVEFILE:'' @ ''foo.txt:'')
        = ProcessSaveFile example_host example_browser ''foo.txt:''"
    by (rule WebWindowCallback_prefixes)
  moreover
  have "WebWindowCallback example_host example_browser 7
          (''SAVEFILE:'' @ ''foo.txt:'' @ [CHR ''a'', CHR 0x00, CHR ''b''])
        = ProcessSaveFile example_host example_browser
            (''foo.txt:'' @ [CHR ''a'', CHR 0x00, CHR ''b''])"
    by (rule WebWindowCallback_prefixes)
  moreover note ProcessSaveFile_colon [OF n, of example_host example_browser "[]"]
    ProcessSaveFile_colon [OF n, of example_host example_browser "[CHR ''a'', CHR 0x00, CHR ''b'']"]
  ultimately show ?thesis
    using o by (simp add: ofstream_write_def c_str_def)
qed

text \<open>
  Claim C10, amended.  For every \<^verbatim>\<open>SAVEFILE\<close> payload \<^verbatim>\<open><name>:<content>\<close> in which
  the name has no colon and the content is not empty and has no NUL character
  (later colons and all line breaks belong to the content), the file concerned is
  the one named by \<^verbatim>\<open><name>\<close> up to its first NUL character, which is \<^verbatim>\<open><name>\<close>
  itself when the name has none: when that file can be opened for writing,
  handling the message leaves it holding exactly the content and changes nothing
  else; when it cannot be opened, nothing is written.
\<close>

theorem savefile_writes_content:
  "CHR '':'' \<notin> set name \<Longrightarrow> content \<noteq> [] \<Longrightarrow> CHR 0x00 \<notin> set content \<Longrightarrow>
   WebWindowCallback h st connid (''SAVEFILE:'' @ name @ '':'' @ content)
   = Inr (if CanOpen h (c_str name)
          then st\<lparr>gFiles := (gFiles st)(c_str name \<mapsto> content)\<rparr> else st) \<and>
   (CHR 0x00 \<notin> set name \<longrightarrow> c_str name = name)"
proof (intro conjI impI)
  assume n: "CHR '':'' \<notin> set name" and c: "content \<noteq> []" and z: "CHR 0x00 \<notin> set content"
  have "WebWindowCallback h st connid (''SAVEFILE:'' @ name @ '':'' @ content)
        = ProcessSaveFile h st (name @ '':'' @ content)"
    by (rule WebWindowCallback_prefixes)
  also have "\<dots> = ProcessSaveFile h st (name @ CHR '':'' # content)" by simp
  also from c z have "\<dots> = Inr (ofstream_write h name content st)"
    by (simp add: ProcessSaveFile_colon [OF n])
  finally show "WebWindowCallback h st connid (''SAVEFILE:'' @ name @ '':'' @ content)
   = Inr (if CanOpen h (c_str name)
          then st\<lparr>gFiles := (gFiles st)(c_str name \<mapsto> content)\<rparr> else st)"
    by (simp add: ofstream_write_def Let_def)
next
  assume "CHR 0x00 \<notin> set name"
  then show "c_str name = name" by (rule c_str_no_NUL)
qed

theorem savefile_writes_content_witness:
  "CHR '':'' \<notin> set ''foo.txt'' \<and> ''hello'' \<noteq> [] \<and> CHR 0x00 \<notin> set ''hello'' \<and>
   CHR 0x00 \<notin> set ''foo.txt'' \<and> c_str ''foo.txt'' = ''foo.txt'' \<and>
   CanOpen example_host ''foo.txt'' \<and>
   WebWindowCallback example_host example_browser 7 ''SAVEFILE:foo.txt:hello''
   = Inr (example_browser\<lparr>gFiles := (gFiles example_browser)(''foo.txt'' \<mapsto> ''hello'')\<rparr>) \<and>
   WebWindowCallback example_host example_browser 7 (''SAVEFILE:foo.txt:a:b'' @ [CHR 0x0A] @ ''c'')
   = Inr (example_browser\<lparr>gFiles := (gFiles example_browser)(''foo.txt'' \<mapsto> ''a:b'' @ [CHR 0x0A] @ ''c'')\<rparr>) \<and>
   c_str (''foo'' @ [CHR 0x00] @ ''bar.txt'') = ''foo'' \<and>
   WebWindowCallback example_host example_browser 7
     (''SAVEFILE:foo'' @ [CHR 0x00] @ ''bar.txt:hello'')
   = Inr (example_browser\<lparr>gFiles := (gFiles example_browser)(''foo'' \<mapsto> ''hello'')\<rparr>)"
proof -
  have n: "CHR '':'' \<notin> set ''foo.txt''" by simp
  have n3: "CHR '':'' \<notin> set (''foo'' @ [CHR 0x00] @ ''bar.txt'')" by simp
  have c1: "''hello'' \<noteq> []" by simp
  have z1: "CHR 0x00 \<notin> set ''hello''" by simp
  have c2: "''a:b'' @ [CHR 0x0A] @ ''c'' \<noteq> []" by simp
  have z2: "CHR 0x00 \<notin> set (''a:b'' @ [CHR 0x0A] @ ''c'')" by simp
  have zn: "CHR 0x00 \<notin> set ''foo.txt''" by simp
  have o: "CanOpen example_host ''foo.txt''" "CanOpen example_host ''foo''"
    by (simp_all add: example_host_def)
  have k: "c_str (''foo'' @ [CHR 0x00] @ ''bar.txt'') = ''foo''"
    by (simp add: c_str_def)
  note w1 = savefile_writes_content [OF n c1 z1, of example_host example_browser 7]
    and w2 = savefile_writes_content [OF n c2 z2, of example_host example_browser 7]
    and w3 = savefile_writes_content [OF n3 c1 z1, of example_host example_browser 7]
  from w1 zn have e: "c_str ''foo.txt'' = ''foo.txt''" by blast
  from w1 w2 w3 e k o zn show ?thesis by simp
qed

section \<open>Canvas names\<close>

lemma digit_char_inj: "a < 10 \<Longrightarrow> b < 10 \<Longrightarrow> digit_char a = digit_char b \<Longrightarrow> a = b"
proof -
  assume a: "a < 10" and b: "b < 10" and eq: "digit_char a = digit_char b"
  have d: "distinct ''0123456789''" by simp
  have l: "length ''0123456789'' = 10" by simp
  from a b eq have "''0123456789'' ! a = ''0123456789'' ! b"
    by (simp add: digit_char_def)
  with d l a b show "a = b"
    by (simp only: nth_eq_iff_index_eq)
qed

lemma string_of_nat_not_Nil: "string_of_nat n \<noteq> []"
  by (subst string_of_nat.simps) simp

lemma string_of_nat_inj: "string_of_nat m = string_of_nat n \<Longrightarrow> m = n"
proof (induction m arbitrary: n rule: string_of_nat.induct)
  case (1 m)
  show ?case
  proof (cases "m < 10")
    case m: True
    show ?thesis
    proof (cases "n < 10")
      case True
      with m "1.prems" have "digit_char m = digit_char n"
        by (simp add: string_of_nat.simps)
      with m True show ?thesis by (rule digit_char_inj)
    next
      case False
      with m "1.prems" have "[digit_char m] = string_of_nat (n div 10) @ [digit_char (n mod 10)]"
        by (simp add: string_of_nat.simps [of m] string_of_nat.simps [of n])
      then have "string_of_nat (n div 10) = []" by simp
      then show ?thesis by (simp add: string_of_nat_not_Nil)
    qed
  next
    case m: False
    show ?thesis
    proof (cases "n < 10")
      case True
      with m "1.prems" have "string_of_nat (m div 10) @ [digit_char (m mod 10)] = [digit_char n]"
        by (simp add: string_of_nat.simps [of m] string_of_nat.simps [of n])
      then have "string_of_nat (m div 10) = []" by simp
      then show ?thesis by (simp add: string_of_nat_not_Nil)
    next
      case False
      with m "1.prems" have
        "string_of_nat (m div 10) @ [digit_char (m mod 10)]
         = string_of_nat (n div 10) @ [digit_char (n mod 10)]"
        by (simp add: string_of_nat.simps [of m] string_of_nat.simps [of n])
      then have q: "string_of_nat (m div 10) = string_of_nat (n div 10)"
        and r: "digit_char (m mod 10) = digit_char (n mod 10)"
        by simp_all
      from m q have "m div 10 = n div 10" by (rule "1.IH")
      moreover from r have "m mod 10 = n mod 10"
        by (intro digit_char_inj) simp_all
      ultimately show ?thesis by (metis div_mult_mod_eq)
    qed
  qed
qed

lemma AddCanvas_name:
  "length (fCanvases st) < 2 ^ 31 - 1 \<Longrightarrow>
   fName (fst (AddCanvas st)) = ''webcanv'' @ string_of_nat (length (fCanvases st) + 1)"
  by (simp add: AddCanvas_def Let_def webcanv_number)

lemma AddRCanvas_name:
  "length (fRCanvases st) < 2 ^ 64 - 1 \<Longrightarrow>
   rTitle (fst (AddRCanvas st)) = ''rcanv'' @ string_of_nat (length (fRCanvases st) + 1)"
  by (simp add: AddRCanvas_def Let_def size_t_plus1_small to_string_def)

lemma handle_NEWCANVAS_legacy:
  "\<not> fUseRCanvas st \<Longrightarrow>
   handle_NEWCANVAS h st connid
   = Inr (Send connid
            (''CANVS:'' @ c_str (ToJSON_strings h
               [''root6'', GetCanvasUrl h (fst (AddCanvas st)), fName (fst (AddCanvas st))]))
            (snd (AddCanvas st)))"
  by (simp add: handle_NEWCANVAS_def Let_def split: prod.splits)

lemma two_canvas_browser_reached:
  "WebWindowCallback example_host example_browser 7 ''NEWCANVAS'' = Inr two_canvas_browser"
  by (simp add: WebWindowCallback_literals handle_NEWCANVAS_legacy AddCanvas_def Let_def
      webcanv_number string_of_nat_small Send_def GetCanvasUrl_def c_str_def
      example_browser_def example_host_def two_canvas_browser_def
      del: One_nat_def flip: One_nat_def numeral_2_eq_2)

lemma name_reuse_browser_reached:
  "run example_host example_browser
     [(7, ''NEWCANVAS''), (7, ''CLOSE_CANVAS:webcanv1''), (7, ''NEWCANVAS'')]
   = Inr name_reuse_browser"
proof -
  let ?c = "\<lambda>n. \<lparr>fName = n, fTitle = n, fPrimitives = [], fForceUpdates = 0\<rparr>"
  define st2 where "st2 = two_canvas_browser\<lparr>fCanvases := [?c ''webcanv2'']\<rparr>"
  note s1 = two_canvas_browser_reached
  have "WebWindowCallback example_host two_canvas_browser 7 (''CLOSE_CANVAS:'' @ ''webcanv1'')
        = Inr (CloseCanvas two_canvas_browser ''webcanv1'')"
    by (rule WebWindowCallback_prefixes)
  moreover have "CloseCanvas two_canvas_browser ''webcanv1'' = st2"
    by (simp add: CloseCanvas_def erase_def two_canvas_browser_def st2_def)
  ultimately have s2:
    "WebWindowCallback example_host two_canvas_browser 7 ''CLOSE_CANVAS:webcanv1'' = Inr st2"
    by simp
  have s3: "WebWindowCallback example_host st2 7 ''NEWCANVAS'' = Inr name_reuse_browser"
    by (simp add: WebWindowCallback_literals handle_NEWCANVAS_legacy AddCanvas_def Let_def
        webcanv_number string_of_nat_small Send_def GetCanvasUrl_def c_str_def st2_def
        two_canvas_browser_def example_host_def name_reuse_browser_def
        del: One_nat_def flip: One_nat_def numeral_2_eq_2)
  from s1 s2 s3 show ?thesis by simp
qed

text \<open>
  Claim C4, as stated, fails: in the example session, creating a canvas, closing
  \<^verbatim>\<open>webcanv1\<close> and creating another canvas leaves two canvases that were both
  named \<^verbatim>\<open>webcanv2\<close>.
\<close>

theorem canvas_name_reuse_counterexample:
  "run example_host example_browser
     [(7, ''NEWCANVAS''), (7, ''CLOSE_CANVAS:webcanv1''), (7, ''NEWCANVAS'')]
   = Inr name_reuse_browser \<and>
   map fName (fCanvases name_reuse_browser) = [''webcanv2'', ''webcanv2''] \<and>
   \<not> distinct (map fName (fCanvases name_reuse_browser))"
  using name_reuse_browser_reached by (simp add: name_reuse_browser_def)

text \<open>
  Claim C4, amended.  While a list holds fewer than \<open>2^31 - 1\<close> legacy canvases
  (fewer than \<open>2^64 - 1\<close> next-generation canvases), a canvas created in it is named
  \<^verbatim>\<open>webcanv\<close> (\<^verbatim>\<open>rcanv\<close>) followed by the decimal digits of the length of the list
  at creation time plus 1.  Hence two canvases of one kind get the same name exactly
  when their list had the same length at both creations, which a deletion in
  between makes possible; a legacy and a next-generation canvas never get the same
  name.
\<close>

theorem canvas_names:
  "length (fCanvases st) < 2 ^ 31 - 1 \<Longrightarrow> length (fCanvases st') < 2 ^ 31 - 1 \<Longrightarrow>
   length (fRCanvases st) < 2 ^ 64 - 1 \<Longrightarrow> length (fRCanvases st') < 2 ^ 64 - 1 \<Longrightarrow>
   fName (fst (AddCanvas st)) = ''webcanv'' @ string_of_nat (length (fCanvases st) + 1) \<and>
   rTitle (fst (AddRCanvas st)) = ''rcanv'' @ string_of_nat (length (fRCanvases st) + 1) \<and>
   (fName (fst (AddCanvas st)) = fName (fst (AddCanvas st'))
      \<longleftrightarrow> length (fCanvases st) = length (fCanvases st')) \<and>
   (rTitle (fst (AddRCanvas st)) = rTitle (fst (AddRCanvas st'))
      \<longleftrightarrow> length (fRCanvases st) = length (fRCanvases st')) \<and>
   fName (fst (AddCanvas st)) \<noteq> rTitle (fst (AddRCanvas st'))"
proof -
  assume a: "length (fCanvases st) < 2 ^ 31 - 1" and a': "length (fCanvases st') < 2 ^ 31 - 1"
    and b: "length (fRCanvases st) < 2 ^ 64 - 1" and b': "length (fRCanvases st') < 2 ^ 64 - 1"
  note n = AddCanvas_name [OF a] and n' = AddCanvas_name [OF a']
    and r = AddRCanvas_name [OF b] and r' = AddRCanvas_name [OF b']
  have "string_of_nat (length (fCanvases st) + 1) = string_of_nat (length (fCanvases st') + 1)
        \<longleftrightarrow> length (fCanvases st) = length (fCanvases st')"
    using string_of_nat_inj [of "length (fCanvases st) + 1" "length (fCanvases st') + 1"]
    by auto
  moreover
  have "string_of_nat (length (fRCanvases st) + 1) = string_of_nat (length (fRCanvases st') + 1)
        \<longleftrightarrow> length (fRCanvases st) = length (fRCanvases st')"
    using string_of_nat_inj [of "length (fRCanvases st) + 1" "length (fRCanvases st') + 1"]
    by auto
  ultimately show ?thesis
    by (simp add: n n' r r')
qed

theorem canvas_names_witness:
  "length (fCanvases example_browser) < 2 ^ 31 - 1 \<and>
   length (fCanvases name_reuse_browser) < 2 ^ 31 - 1 \<and>
   length (fRCanvases example_browser) < 2 ^ 64 - 1 \<and>
   length (fRCanvases name_reuse_browser) < 2 ^ 64 - 1 \<and>
   fName (fst (AddCanvas example_browser)) = ''webcanv2'' \<and>
   fName (fst (AddCanvas name_reuse_browser)) = ''webcanv3'' \<and>
   rTitle (fst (AddRCanvas example_browser)) = ''rcanv1'' \<and>
   fName (fst (AddCanvas example_browser)) \<noteq> fName (fst (AddCanvas name_reuse_browser))"
proof -
  have a: "length (fCanvases example_browser) < 2 ^ 31 - 1"
    by (simp add: example_browser_def)
  have a': "length (fCanvases name_reuse_browser) < 2 ^ 31 - 1"
    by (simp add: name_reuse_browser_def)
  have b: "length (fRCanvases example_browser) < 2 ^ 64 - 1"
    by (simp add: example_browser_def)
  have b': "length (fRCanvases name_reuse_browser) < 2 ^ 64 - 1"
    by (simp add: name_reuse_browser_def)
  have l: "length (fCanvases example_browser) + 1 = 2"
    "length (fCanvases name_reuse_browser) + 1 = 3"
    "length (fRCanvases example_browser) + 1 = 1"
    by (simp_all add: example_browser_def name_reuse_browser_def)
  from canvas_names [OF a a' b b'] canvas_names [OF a' a b' b] a a' b b'
  show ?thesis
    by (simp only: l string_of_nat_small) simp
qed

section \<open>The active canvas\<close>

lemma find_if_Some:
  "find_if P xs = Some i \<Longrightarrow> i < length xs \<and> P (xs ! i) \<and> (\<forall>j<i. \<not> P (xs ! j))"
proof (induction xs arbitrary: i)
  case Nil
  then show ?case by simp
next
  case (Cons x xs)
  show ?case
  proof (cases "P x")
    case True
    with Cons.prems show ?thesis by simp
  next
    case False
    with Cons.prems obtain k where k: "find_if P xs = Some k" and i: "i = Suc k"
      by auto
    from Cons.IH [OF k] False i show ?thesis
      by (auto simp: less_Suc_eq_0_disj)
  qed
qed

lemma find_if_None: "find_if P xs = None \<longleftrightarrow> filter P xs = []"
  by (induction xs) auto

lemma find_if_Some_iff:
  "find_if P xs = Some i \<longleftrightarrow> i < length xs \<and> P (xs ! i) \<and> (\<forall>j<i. \<not> P (xs ! j))"
proof
  assume "find_if P xs = Some i"
  then show "i < length xs \<and> P (xs ! i) \<and> (\<forall>j<i. \<not> P (xs ! j))"
    by (rule find_if_Some)
next
  assume r: "i < length xs \<and> P (xs ! i) \<and> (\<forall>j<i. \<not> P (xs ! j))"
  then have "filter P xs \<noteq> []" by (auto simp: filter_empty_conv)
  then obtain k where k: "find_if P xs = Some k"
    by (auto simp: find_if_None [symmetric])
  from find_if_Some [OF k] have f: "k < length xs" "P (xs ! k)" "\<forall>j<k. \<not> P (xs ! j)"
    by simp_all
  from r f have "\<not> k < i" and "\<not> i < k" by auto
  then have "k = i" by simp
  with k show "find_if P xs = Some i" by simp
qed

lemma ProcessDblClick_draw:
  "GetElement h (fBrowsable st) item_path = Some elem \<Longrightarrow> \<not> HasTextContent elem \<Longrightarrow>
   GetObjectToDraw elem = Some tobj \<Longrightarrow>
   ProcessDblClick h st item_path drawingOptions
   = (case GetActiveCanvas st of
        Some i \<Rightarrow>
          (''SLCTCANV:'' @ fName (fCanvases st ! i),
           st\<lparr>fCanvases :=
                (fCanvases st)[i := draw_on_canvas tobj (c_str drawingOptions) (fCanvases st ! i)]\<rparr>)
      | None \<Rightarrow>
          (case GetActiveRCanvas st of
             Some j \<Rightarrow>
               (''SLCTCANV:'' @ rTitle (fRCanvases st ! j),
                st\<lparr>fRCanvases :=
                     (fRCanvases st)[j := draw_on_rcanvas tobj drawingOptions (fRCanvases st ! j)]\<rparr>)
           | None \<Rightarrow> ([], st)))"
  by (simp add: ProcessDblClick_def)

lemma GetActiveCanvas_iff:
  "GetActiveCanvas st = Some i \<longleftrightarrow>
     i < length (fCanvases st) \<and> fName (fCanvases st ! i) = fActiveCanvas st \<and>
     (\<forall>j<i. fName (fCanvases st ! j) \<noteq> fActiveCanvas st)"
  unfolding GetActiveCanvas_def find_if_Some_iff by (auto simp: eq_commute)

lemma GetActiveRCanvas_iff:
  "GetActiveRCanvas st = Some i \<longleftrightarrow>
     i < length (fRCanvases st) \<and> rTitle (fRCanvases st ! i) = fActiveCanvas st \<and>
     (\<forall>j<i. rTitle (fRCanvases st ! j) \<noteq> fActiveCanvas st)"
  unfolding GetActiveRCanvas_def find_if_Some_iff by (auto simp: eq_commute)

text \<open>
  Claim C5, as stated, fails: the session \<open>name_reuse_browser\<close> is reached from
  the constructed and connected session by three messages, and two of its canvases
  have the name that is stored as the active one.
\<close>

theorem two_active_canvases_counterexample:
  "run example_host example_browser
     [(7, ''NEWCANVAS''), (7, ''CLOSE_CANVAS:webcanv1''), (7, ''NEWCANVAS'')]
   = Inr name_reuse_browser \<and>
   length (active_canvases name_reuse_browser) = 2"
  using name_reuse_browser_reached
  by (simp add: name_reuse_browser_def active_canvases_def)

text \<open>
  Claim C5, amended.  In every session state each lookup of the active canvas
  yields the first canvas of its list whose name (legacy list) or title
  (next-generation list) equals the stored active-canvas string, and yields nothing
  exactly when no canvas of that list carries the string; so at most one canvas of
  each list is in use even when several carry the string.  A double click that
  draws an object replaces the primitives of that legacy canvas by the object,
  with the given option cut at its first NUL character, and changes no other
  canvas; when the legacy list has no match it replaces the primitives of the
  next-generation canvas found by a clone of the object (detached from its
  directory when it is a histogram) and changes no other canvas; in both cases the
  reply is \<^verbatim>\<open>SLCTCANV:\<close> followed by the active name.  When neither list has a
  match it replies with the empty string and changes nothing.
  \<^verbatim>\<open>SELECT_CANVAS\<close> stores any name as the active one, without a check.
\<close>

theorem active_canvas_lookup:
  "(GetActiveCanvas st = Some i \<longleftrightarrow>
      i < length (fCanvases st) \<and> fName (fCanvases st ! i) = fActiveCanvas st \<and>
      (\<forall>j<i. fName (fCanvases st ! j) \<noteq> fActiveCanvas st)) \<and>
   (GetActiveCanvas st = None \<longleftrightarrow> active_canvases st = []) \<and>
   (GetActiveRCanvas st = Some i \<longleftrightarrow>
      i < length (fRCanvases st) \<and> rTitle (fRCanvases st ! i) = fActiveCanvas st \<and>
      (\<forall>j<i. rTitle (fRCanvases st ! j) \<noteq> fActiveCanvas st)) \<and>
   (GetActiveRCanvas st = None \<longleftrightarrow> active_rcanvases st = []) \<and>
   (GetElement h (fBrowsable st) item_path = Some elem \<and> \<not> HasTextContent elem \<and>
    GetObjectToDraw elem = Some tobj \<longrightarrow>
      ProcessDblClick h st item_path drawingOptions
      = (case GetActiveCanvas st of
           Some k \<Rightarrow>
             (''SLCTCANV:'' @ fActiveCanvas st,
              st\<lparr>fCanvases :=
                   (fCanvases st)[k := (fCanvases st ! k)
                      \<lparr>fPrimitives := [(tobj, c_str drawingOptions)],
                       fForceUpdates := fForceUpdates (fCanvases st ! k) + 1\<rparr>]\<rparr>)
         | None \<Rightarrow>
             (case GetActiveRCanvas st of
                Some k \<Rightarrow>
                  (''SLCTCANV:'' @ fActiveCanvas st,
                   st\<lparr>fRCanvases :=
                        (fRCanvases st)[k := (fRCanvases st ! k)
                           \<lparr>rPrimitives :=
                              [(if objIsTH1 tobj then tobj\<lparr>objDirectory := None\<rparr> else tobj,
                                drawingOptions)],
                            rUpdates := rUpdates (fRCanvases st ! k) +
                              (if rPrimitives (fRCanvases st ! k) = [] then 1 else 2)\<rparr>]\<rparr>)
              | None \<Rightarrow> ([], st)))) \<and>
   WebWindowCallback h st connid (''SELECT_CANVAS:'' @ name) = Inr (st\<lparr>fActiveCanvas := name\<rparr>)"
proof (intro conjI impI)
  show "WebWindowCallback h st connid (''SELECT_CANVAS:'' @ name) = Inr (st\<lparr>fActiveCanvas := name\<rparr>)"
    by (rule WebWindowCallback_prefixes)
  show "GetActiveCanvas st = Some i \<longleftrightarrow>
      i < length (fCanvases st) \<and> fName (fCanvases st ! i) = fActiveCanvas st \<and>
      (\<forall>j<i. fName (fCanvases st ! j) \<noteq> fActiveCanvas st)"
    by (rule GetActiveCanvas_iff)
  show "GetActiveRCanvas st = Some i \<longleftrightarrow>
      i < length (fRCanvases st) \<and> rTitle (fRCanvases st ! i) = fActiveCanvas st \<and>
      (\<forall>j<i. rTitle (fRCanvases st ! j) \<noteq> fActiveCanvas st)"
    by (rule GetActiveRCanvas_iff)
  show "GetActiveCanvas st = None \<longleftrightarrow> active_canvases st = []"
    by (simp add: GetActiveCanvas_def find_if_None active_canvases_def)
  show "GetActiveRCanvas st = None \<longleftrightarrow> active_rcanvases st = []"
    by (simp add: GetActiveRCanvas_def find_if_None active_rcanvases_def)
next
  assume d: "GetElement h (fBrowsable st) item_path = Some elem \<and> \<not> HasTextContent elem \<and>
    GetObjectToDraw elem = Some tobj"
  have n1: "fName (fCanvases st ! k) = fActiveCanvas st" if "GetActiveCanvas st = Some k" for k
    using that by (simp add: GetActiveCanvas_iff)
  have n2: "rTitle (fRCanvases st ! k) = fActiveCanvas st" if "GetActiveRCanvas st = Some k" for k
    using that by (simp add: GetActiveRCanvas_iff)
  from d have "ProcessDblClick h st item_path drawingOptions
   = (case GetActiveCanvas st of
        Some i \<Rightarrow>
          (''SLCTCANV:'' @ fName (fCanvases st ! i),
           st\<lparr>fCanvases :=
                (fCanvases st)[i := draw_on_canvas tobj (c_str drawingOptions) (fCanvases st ! i)]\<rparr>)
      | None \<Rightarrow>
          (case GetActiveRCanvas st of
             Some j \<Rightarrow>
               (''SLCTCANV:'' @ rTitle (fRCanvases st ! j),
                st\<lparr>fRCanvases :=
                     (fRCanvases st)[j := draw_on_rcanvas tobj drawingOptions (fRCanvases st ! j)]\<rparr>)
           | None \<Rightarrow> ([], st)))"
    by (simp add: ProcessDblClick_draw)
  then show "ProcessDblClick h st item_path drawingOptions
      = (case GetActiveCanvas st of
           Some k \<Rightarrow>
             (''SLCTCANV:'' @ fActiveCanvas st,
              st\<lparr>fCanvases :=
                   (fCanvases st)[k := (fCanvases st ! k)
                      \<lparr>fPrimitives := [(tobj, c_str drawingOptions)],
                       fForceUpdates := fForceUpdates (fCanvases st ! k) + 1\<rparr>]\<rparr>)
         | None \<Rightarrow>
             (case GetActiveRCanvas st of
                Some k \<Rightarrow>
                  (''SLCTCANV:'' @ fActiveCanvas st,
                   st\<lparr>fRCanvases :=
                        (fRCanvases st)[k := (fRCanvases st ! k)
                           \<lparr>rPrimitives :=
                              [(if objIsTH1 tobj then tobj\<lparr>objDirectory := None\<rparr> else tobj,
                                drawingOptions)],
                            rUpdates := rUpdates (fRCanvases st ! k) +
                              (if rPrimitives (fRCanvases st ! k) = [] then 1 else 2)\<rparr>]\<rparr>)
              | None \<Rightarrow> ([], st)))"
    by (simp add: n1 n2 draw_on_canvas_def draw_on_rcanvas_def Let_def split: option.splits)
qed

theorem active_canvas_lookup_witness:
  "GetActiveCanvas two_canvas_browser = Some 1 \<and>
   GetActiveCanvas name_reuse_browser = Some 0 \<and>
   length (active_canvases name_reuse_browser) = 2 \<and>
   GetActiveRCanvas example_rbrowser = Some 0 \<and>
   example_element ''/hist''
     = Some \<lparr>HasTextContent = False, GetTextContent = [],
             GetObjectToDraw = Some \<lparr>objName = ''hist'', objIsTH1 = True,
                                      objDirectory = Some ''file.root''\<rparr>\<rparr> \<and>
   ProcessDblClick example_host two_canvas_browser ''/hist'' ''colz''
     = (''SLCTCANV:webcanv2'',
        two_canvas_browser\<lparr>fCanvases :=
          [\<lparr>fName = ''webcanv1'', fTitle = ''webcanv1'', fPrimitives = [], fForceUpdates = 0\<rparr>,
           \<lparr>fName = ''webcanv2'', fTitle = ''webcanv2'',
            fPrimitives = [(\<lparr>objName = ''hist'', objIsTH1 = True,
                             objDirectory = Some ''file.root''\<rparr>, ''colz'')],
            fForceUpdates = 1\<rparr>]\<rparr>) \<and>
   ProcessDblClick example_host example_rbrowser ''/hist'' ''colz''
     = (''SLCTCANV:rcanv1'',
        example_rbrowser\<lparr>fRCanvases :=
          [\<lparr>rTitle = ''rcanv1'',
            rPrimitives = [(\<lparr>objName = ''hist'', objIsTH1 = True, objDirectory = None\<rparr>, ''colz'')],
            rUpdates = 1\<rparr>]\<rparr>) \<and>
   WebWindowCallback example_host example_browser 7 ''SELECT_CANVAS:nosuch''
     = Inr (example_browser\<lparr>fActiveCanvas := ''nosuch''\<rparr>) \<and>
   active_canvases (example_browser\<lparr>fActiveCanvas := ''nosuch''\<rparr>) = [] \<and>
   active_rcanvases (example_browser\<lparr>fActiveCanvas := ''nosuch''\<rparr>) = [] \<and>
   GetActiveCanvas (example_browser\<lparr>fActiveCanvas := ''nosuch''\<rparr>) = None \<and>
   GetActiveRCanvas (example_browser\<lparr>fActiveCanvas := ''nosuch''\<rparr>) = None \<and>
   ProcessDblClick example_host (example_browser\<lparr>fActiveCanvas := ''nosuch''\<rparr>) ''/hist'' ''colz''
     = ([], example_browser\<lparr>fActiveCanvas := ''nosuch''\<rparr>)"
proof -
  let ?t = "\<lparr>objName = ''hist'', objIsTH1 = True, objDirectory = Some ''file.root''\<rparr>"
  let ?e = "\<lparr>HasTextContent = False, GetTextContent = [], GetObjectToDraw = Some ?t\<rparr>"
  let ?n = "example_browser\<lparr>fActiveCanvas := ''nosuch''\<rparr>"
  have e: "example_element ''/hist'' = Some ?e"
    by (simp add: example_element_def)
  have d: "GetElement example_host (fBrowsable st) ''/hist'' = Some ?e \<and> \<not> HasTextContent ?e \<and>
      GetObjectToDraw ?e = Some ?t" for st :: RBrowser
    by (simp add: example_host_def e)
  have cs: "c_str ''colz'' = ''colz''" by (simp add: c_str_def)
  have ac: "length (active_canvases name_reuse_browser) = 2"
    by (simp add: active_canvases_def name_reuse_browser_def)
  have n: "active_canvases ?n = []" "active_rcanvases ?n = []"
    by (simp_all add: active_canvases_def active_rcanvases_def example_browser_def)
  have r0: "active_canvases example_rbrowser = []"
    by (simp add: active_canvases_def example_rbrowser_def)
  note t2 = active_canvas_lookup [of two_canvas_browser 1 example_host "''/hist''" ?e ?t "''colz''" 7 "[]"]
  from t2 have g2: "GetActiveCanvas two_canvas_browser = Some 1"
    by (simp add: two_canvas_browser_def less_Suc_eq_0_disj)
  from t2 d [of two_canvas_browser] g2 cs
  have p2: "ProcessDblClick example_host two_canvas_browser ''/hist'' ''colz''
     = (''SLCTCANV:webcanv2'',
        two_canvas_browser\<lparr>fCanvases :=
          [\<lparr>fName = ''webcanv1'', fTitle = ''webcanv1'', fPrimitives = [], fForceUpdates = 0\<rparr>,
           \<lparr>fName = ''webcanv2'', fTitle = ''webcanv2'', fPrimitives = [(?t, ''colz'')],
            fForceUpdates = 1\<rparr>]\<rparr>)"
    by (simp add: two_canvas_browser_def)
  from active_canvas_lookup [of name_reuse_browser 0 example_host "[]" ?e ?t "[]" 7 "[]"]
  have g1: "GetActiveCanvas name_reuse_browser = Some 0"
    by (simp add: name_reuse_browser_def)
  note tr = active_canvas_lookup [of example_rbrowser 0 example_host "''/hist''" ?e ?t "''colz''" 7 "[]"]
  from tr have gr: "GetActiveRCanvas example_rbrowser = Some 0"
    by (simp add: example_rbrowser_def)
  from tr r0 have gn: "GetActiveCanvas example_rbrowser = None" by blast
  from tr d [of example_rbrowser] gr gn
  have pr: "ProcessDblClick example_host example_rbrowser ''/hist'' ''colz''
     = (''SLCTCANV:rcanv1'',
        example_rbrowser\<lparr>fRCanvases :=
          [\<lparr>rTitle = ''rcanv1'',
            rPrimitives = [(\<lparr>objName = ''hist'', objIsTH1 = True, objDirectory = None\<rparr>, ''colz'')],
            rUpdates = 1\<rparr>]\<rparr>)"
    by (simp add: example_rbrowser_def draw_on_rcanvas_def)
  note tn = active_canvas_lookup [of ?n 0 example_host "''/hist''" ?e ?t "''colz''" 7 "[]"]
  from tn n have p3: "GetActiveCanvas ?n = None" "GetActiveRCanvas ?n = None"
    by blast+
  from tn d [of ?n] p3
  have p4: "ProcessDblClick example_host ?n ''/hist'' ''colz'' = ([], ?n)"
    by simp
  from active_canvas_lookup [of example_browser 0 example_host "[]" ?e ?t "[]" 7 "''nosuch''"]
  have p5: "WebWindowCallback example_host example_browser 7 ''SELECT_CANVAS:nosuch'' = Inr ?n"
    by simp
  from g2 g1 ac gr e p2 pr p5 n p3 p4 show ?thesis by simp
qed

section \<open>Unknown messages and rejected JSON\<close>

lemma WebWindowCallback_unrouted: "route arg = None \<Longrightarrow> WebWindowCallback h st connid arg = Inr st"
  by (simp add: WebWindowCallback_def)

lemma handle_BRREQ_rejected:
  "payload \<noteq> [] \<Longrightarrow> FromJSON_request h payload = None \<Longrightarrow>
   handle_BRREQ h st connid (''BRREQ:'' @ payload) = Inr st"
  unfolding handle_BRREQ_def substr_append_literals
  by (simp add: ProcessBrowserRequest_def)

lemma handle_DBLCLK_rejected:
  "string_at (''DBLCLK:'' @ payload) 8 = Inr CHR ''['' \<Longrightarrow> FromJSON_strings h payload = None \<Longrightarrow>
   handle_DBLCLK h st connid (''DBLCLK:'' @ payload) = Inr st"
  unfolding handle_DBLCLK_def substr_append_literals
  by simp

lemma handle_DBLCLK_plain:
  "string_at (''DBLCLK:'' @ payload) 8 = Inr c \<Longrightarrow> c \<noteq> CHR ''['' \<Longrightarrow>
   handle_DBLCLK h st connid (''DBLCLK:'' @ payload)
   = Inr (Send connid (fst (ProcessDblClick h st payload []))
            (snd (ProcessDblClick h st payload [])))"
  unfolding handle_DBLCLK_def substr_append_literals
  by (simp add: split_def Let_def)

text \<open>
  Claim C3, as stated, fails for malformed JSON in a \<^verbatim>\<open>DBLCLK:\<close> message.  The
  payload \<^verbatim>\<open>["a"\<close> is not looked at as JSON, because the character at index 8 of
  the message is not a bracket: it is taken as a path, and the reply of the double
  click, here the empty string, is sent.  The payload \<^verbatim>\<open>[\<close> makes the test of
  index 8 itself fail with \<^verbatim>\<open>std::out_of_range\<close>.
\<close>

theorem malformed_dblclick_counterexample:
  \<open>FromJSON_strings example_host ''["a"'' = None \<and>
   WebWindowCallback example_host example_browser 7 ''DBLCLK:["a"''
     = Inr (Send 7 [] example_browser) \<and>
   fSent (fWebWindow (Send 7 [] example_browser))
     = fSent (fWebWindow example_browser) @ [(7, [])] \<and>
   FromJSON_strings example_host ''['' = None \<and>
   WebWindowCallback example_host example_browser 7 ''DBLCLK:['' = Inl OutOfRange\<close>
proof -
  let ?p = \<open>''["a"''\<close>
  have at: "string_at (''DBLCLK:'' @ ?p) 8 = Inr (CHR 0x22)"
    by (simp add: string_at_def)
  have ne: "CHR 0x22 \<noteq> CHR ''[''" by simp
  have "ProcessDblClick example_host example_browser ?p [] = ([], example_browser)"
    by (simp add: ProcessDblClick_def example_host_def example_element_def)
  with handle_DBLCLK_plain [OF at ne, of example_host example_browser 7]
    WebWindowCallback_prefixes(2) [of example_host example_browser 7 ?p]
  have a: "WebWindowCallback example_host example_browser 7 (''DBLCLK:'' @ ?p)
           = Inr (Send 7 [] example_browser)"
    by simp
  have "string_at (''DBLCLK:'' @ ''['') 8 = Inl OutOfRange"
    by (simp add: string_at_def)
  with WebWindowCallback_prefixes(2) [of example_host example_browser 7 "''[''"]
  have b: "WebWindowCallback example_host example_browser 7 (''DBLCLK:'' @ ''['') = Inl OutOfRange"
    by (simp add: handle_DBLCLK_def)
  from a b show ?thesis
    by (simp add: Send_def example_host_def)
qed

text \<open>
  Claim C3, amended.  Each of the ten commands is routed to its own branch, and a
  message takes at most one branch.  A message that is neither \<^verbatim>\<open>QUIT_ROOT\<close> nor
  \<^verbatim>\<open>NEWCANVAS\<close> and starts with none of the eight prefixes takes no branch and
  leaves the state, with its record of sent messages, unchanged.  The same holds
  when the JSON reader rejects the payload it is given: a non-empty payload of
  \<^verbatim>\<open>BRREQ:\<close>, or the payload of a \<^verbatim>\<open>DBLCLK:\<close> message whose character at index 8
  is an opening bracket.
\<close>

theorem dispatch_routing:
  "route ''QUIT_ROOT'' = Some QUIT_ROOT \<and>
   route (''BRREQ:'' @ payload) = Some BRREQ \<and>
   route ''NEWCANVAS'' = Some NEWCANVAS \<and>
   route (''DBLCLK:'' @ payload) = Some DBLCLK \<and>
   route (''RUNMACRO:'' @ payload) = Some RUNMACRO \<and>
   route (''SAVEFILE:'' @ payload) = Some SAVEFILE \<and>
   route (''SELECT_CANVAS:'' @ payload) = Some SELECT_CANVAS \<and>
   route (''CLOSE_CANVAS:'' @ payload) = Some CLOSE_CANVAS \<and>
   route (''GETWORKDIR:'' @ payload) = Some GETWORKDIR \<and>
   route (''CHDIR:'' @ payload) = Some CHDIR \<and>
   (arg \<noteq> ''QUIT_ROOT'' \<and> arg \<noteq> ''NEWCANVAS'' \<and>
    \<not> prefix ''BRREQ:'' arg \<and> \<not> prefix ''DBLCLK:'' arg \<and>
    \<not> prefix ''RUNMACRO:'' arg \<and> \<not> prefix ''SAVEFILE:'' arg \<and>
    \<not> prefix ''SELECT_CANVAS:'' arg \<and> \<not> prefix ''CLOSE_CANVAS:'' arg \<and>
    \<not> prefix ''GETWORKDIR:'' arg \<and> \<not> prefix ''CHDIR:'' arg \<longrightarrow>
      route arg = None \<and> WebWindowCallback h st connid arg = Inr st) \<and>
   (payload \<noteq> [] \<and> FromJSON_request h payload = None \<longrightarrow>
      WebWindowCallback h st connid (''BRREQ:'' @ payload) = Inr st) \<and>
   (string_at (''DBLCLK:'' @ payload) 8 = Inr CHR ''['' \<and> FromJSON_strings h payload = None \<longrightarrow>
      WebWindowCallback h st connid (''DBLCLK:'' @ payload) = Inr st)"
proof (intro conjI impI)
  assume u: "arg \<noteq> ''QUIT_ROOT'' \<and> arg \<noteq> ''NEWCANVAS'' \<and>
    \<not> prefix ''BRREQ:'' arg \<and> \<not> prefix ''DBLCLK:'' arg \<and>
    \<not> prefix ''RUNMACRO:'' arg \<and> \<not> prefix ''SAVEFILE:'' arg \<and>
    \<not> prefix ''SELECT_CANVAS:'' arg \<and> \<not> prefix ''CLOSE_CANVAS:'' arg \<and>
    \<not> prefix ''GETWORKDIR:'' arg \<and> \<not> prefix ''CHDIR:'' arg"
  then show r: "route arg = None"
    by (simp add: route_None_iff)
  then show "WebWindowCallback h st connid arg = Inr st"
    by (rule WebWindowCallback_unrouted)
next
  assume "payload \<noteq> [] \<and> FromJSON_request h payload = None"
  then have "handle_BRREQ h st connid (''BRREQ:'' @ payload) = Inr st"
    by (intro handle_BRREQ_rejected) simp_all
  then show "WebWindowCallback h st connid (''BRREQ:'' @ payload) = Inr st"
    by (simp only: WebWindowCallback_prefixes)
next
  assume "string_at (''DBLCLK:'' @ payload) 8 = Inr CHR ''['' \<and> FromJSON_strings h payload = None"
  then have "handle_DBLCLK h st connid (''DBLCLK:'' @ payload) = Inr st"
    by (intro handle_DBLCLK_rejected) simp_all
  then show "WebWindowCallback h st connid (''DBLCLK:'' @ payload) = Inr st"
    by (simp only: WebWindowCallback_prefixes)
qed (rule route_literals route_prefixes)+

theorem dispatch_routing_witness:
  "route ''RELOAD'' = None \<and>
   WebWindowCallback example_host example_browser 7 ''RELOAD'' = Inr example_browser \<and>
   ''{bad'' \<noteq> [] \<and> FromJSON_request example_host ''{bad'' = None \<and>
   WebWindowCallback example_host example_browser 7 ''BRREQ:{bad'' = Inr example_browser \<and>
   string_at ''DBLCLK: [bad'' 8 = Inr CHR ''['' \<and>
   FromJSON_strings example_host '' [bad'' = None \<and>
   WebWindowCallback example_host example_browser 7 ''DBLCLK: [bad'' = Inr example_browser"
proof -
  have u: "''RELOAD'' \<noteq> ''QUIT_ROOT'' \<and> ''RELOAD'' \<noteq> ''NEWCANVAS'' \<and>
    \<not> prefix ''BRREQ:'' ''RELOAD'' \<and> \<not> prefix ''DBLCLK:'' ''RELOAD'' \<and>
    \<not> prefix ''RUNMACRO:'' ''RELOAD'' \<and> \<not> prefix ''SAVEFILE:'' ''RELOAD'' \<and>
    \<not> prefix ''SELECT_CANVAS:'' ''RELOAD'' \<and> \<not> prefix ''CLOSE_CANVAS:'' ''RELOAD'' \<and>
    \<not> prefix ''GETWORKDIR:'' ''RELOAD'' \<and> \<not> prefix ''CHDIR:'' ''RELOAD''"
    by simp
  have j1: "''{bad'' \<noteq> [] \<and> FromJSON_request example_host ''{bad'' = None"
    by (simp add: example_host_def)
  have j2: "string_at (''DBLCLK:'' @ '' [bad'') 8 = Inr CHR ''['' \<and>
      FromJSON_strings example_host '' [bad'' = None"
    by (simp add: example_host_def string_at_def)
  from dispatch_routing [of "''{bad''" "''RELOAD''" example_host example_browser 7] u j1
  have a: "route ''RELOAD'' = None"
    "WebWindowCallback example_host example_browser 7 ''RELOAD'' = Inr example_browser"
    "WebWindowCallback example_host example_browser 7 (''BRREQ:'' @ ''{bad'') = Inr example_browser"
    by blast+
  from dispatch_routing [of "'' [bad''" "''RELOAD''" example_host example_browser 7] j2
  have b: "WebWindowCallback example_host example_browser 7 (''DBLCLK:'' @ '' [bad'') = Inr example_browser"
    by blast
  from a b j1 j2 show ?thesis by simp
qed

end
